theory Spec2Isabelle
  imports Main "HOL-Library.Sublist"
begin

section \<open>Python values the program handles\<close>

text \<open>
  A Python \<open>str\<close> is a sequence of Unicode code points: slicing (\<open>text[:100]\<close>) and
  substring tests count code points, so a string is a list of code points. ASCII
  literals of the source are written \<open>ascii ''...''\<close>; the Chinese message literals are
  given by their code points.
\<close>

type_synonym pystr = "nat list"

definition ascii :: "string \<Rightarrow> pystr" where
  "ascii s = map of_char s"

text \<open>\<open>sub in s\<close> on strings: \<open>sub\<close> occurs in \<open>s\<close> as a contiguous block.\<close>

fun py_in :: "pystr \<Rightarrow> pystr \<Rightarrow> bool" where
  "py_in sub [] = (sub = [])"
| "py_in sub (c # cs) = (prefix sub (c # cs) \<or> py_in sub cs)"

text \<open>
  \<open>str.lower()\<close>. The letters A to Z are mapped to a to z. Python also lower-cases
  letters outside ASCII; no code point outside ASCII lower-cases to a letter of
  \<open>logon success\<close>, so the two membership tests of the login worker, the only users of
  \<open>lower\<close>, have the same value under this definition.
\<close>

definition lower_cp :: "nat \<Rightarrow> nat" where
  "lower_cp c = (if 65 \<le> c \<and> c \<le> 90 then c + 32 else c)"

definition py_lower :: "pystr \<Rightarrow> pystr" where
  "py_lower s = map lower_cp s"

text \<open>A float as \<open>json.loads\<close> may return it: mantissa and binary exponent, or a non-number.\<close>

datatype pyfloat = Finite int int | Infinity bool | NaN

text \<open>What \<open>response.json()\<close> returns. A \<open>dict\<close> is the list of its items (keys distinct).\<close>

datatype json =
    JNull
  | JBool bool
  | JInt int
  | JFloat pyfloat
  | JStr pystr
  | JArr "json list"
  | JObj "(pystr \<times> json) list"

text \<open>Truth value of an object in a condition (\<open>if result.get('success'):\<close>).\<close>

fun truthy :: "json \<Rightarrow> bool" where
  "truthy JNull = False"
| "truthy (JBool b) = b"
| "truthy (JInt i) = (i \<noteq> 0)"
| "truthy (JFloat (Finite m e)) = (m \<noteq> 0)"
| "truthy (JFloat (Infinity s)) = True"
| "truthy (JFloat NaN) = True"
| "truthy (JStr s) = (s \<noteq> [])"
| "truthy (JArr xs) = (xs \<noteq> [])"
| "truthy (JObj kvs) = (kvs \<noteq> [])"

fun type_name :: "json \<Rightarrow> pystr" where
  "type_name JNull = ascii ''NoneType''"
| "type_name (JBool b) = ascii ''bool''"
| "type_name (JInt i) = ascii ''int''"
| "type_name (JFloat f) = ascii ''float''"
| "type_name (JStr s) = ascii ''str''"
| "type_name (JArr xs) = ascii ''list''"
| "type_name (JObj kvs) = ascii ''dict''"

text \<open>
  The text an f-string puts for \<open>{v}\<close>, that is \<open>str(v)\<close>. A string stands for itself.
  How the interpreter prints numbers and nested containers is not the program's
  business: it is the parameter \<open>render\<close>.
\<close>

fun py_str :: "(json \<Rightarrow> pystr) \<Rightarrow> json \<Rightarrow> pystr" where
  "py_str render (JStr s) = s"
| "py_str render v = render v"

subsection \<open>Exceptions\<close>

text \<open>
  The classes the handlers of the program tell apart. \<open>RequestValueError\<close> stands for
  the classes of \<open>requests\<close> that derive from both \<open>RequestException\<close> and \<open>ValueError\<close>
  (its \<open>JSONDecodeError\<close>, \<open>MissingSchema\<close>, \<open>InvalidURL\<close>). Every class derives from
  \<open>Exception\<close>. An exception carries \<open>str(e)\<close>.
\<close>

datatype exn_class =
  KeyError | TypeError | AttributeError | ValueError | OverflowError | RequestException
  | RequestValueError | OtherException

datatype exn = Exn (exn_class: exn_class) (exn_str: pystr)

fun is_ValueError :: "exn_class \<Rightarrow> bool" where
  "is_ValueError ValueError = True"
| "is_ValueError RequestValueError = True"
| "is_ValueError c = False"

fun is_RequestException :: "exn_class \<Rightarrow> bool" where
  "is_RequestException RequestException = True"
| "is_RequestException RequestValueError = True"
| "is_RequestException c = False"

text \<open>Sequencing of statements that may raise: the first exception ends the block.\<close>

definition and_then :: "exn + 'a \<Rightarrow> ('a \<Rightarrow> exn + 'b) \<Rightarrow> exn + 'b" where
  "and_then m f = (case m of Inl e \<Rightarrow> Inl e | Inr v \<Rightarrow> f v)"

text \<open>\<open>d[k]\<close> on a dict: \<open>KeyError(k)\<close>, whose \<open>str\<close> is the key in single quotes.\<close>

definition key_error :: "pystr \<Rightarrow> exn" where
  "key_error k = Exn KeyError ([39] @ k @ [39])"

definition dict_getitem :: "(pystr \<times> 'v) list \<Rightarrow> pystr \<Rightarrow> exn + 'v" where
  "dict_getitem d k = (case map_of d k of None \<Rightarrow> Inl (key_error k) | Some v \<Rightarrow> Inr v)"

text \<open>\<open>d.get(k, default)\<close> on a dict.\<close>

definition dict_get :: "(pystr \<times> 'v) list \<Rightarrow> pystr \<Rightarrow> 'v \<Rightarrow> 'v" where
  "dict_get d k dflt = (case map_of d k of None \<Rightarrow> dflt | Some v \<Rightarrow> v)"

text \<open>\<open>result.get(k, default)\<close> on a parsed JSON value: only a dict has \<open>get\<close>.\<close>

definition json_get :: "json \<Rightarrow> pystr \<Rightarrow> json \<Rightarrow> exn + json" where
  "json_get result k dflt =
     (case result of
        JObj kvs \<Rightarrow> Inr (dict_get kvs k dflt)
      | _ \<Rightarrow> Inl (Exn AttributeError
                 ([39] @ type_name result @ [39] @ ascii '' object has no attribute '' @
                  [39] @ ascii ''get'' @ [39])))"

section \<open>The configuration\<close>

text \<open>
  \<open>yaml.safe_load\<close> of the configuration file. The model covers the documents whose
  entries, where present, have the types of the default file: strings in \<open>Login\<close> and
  \<open>Headers\<close>, booleans and integers in \<open>Settings\<close>. A section and every key may be
  absent; a document that is no mapping at all (an empty file gives \<open>None\<close>) is
  \<open>NotSubscriptable\<close>, with the text of the \<open>TypeError\<close> that subscripting it raises.
\<close>

record settings =
  s_auto_reconnect :: "bool option"
  s_check_interval :: "int option"
  s_test_url :: "pystr option"
  s_test_timeout :: "int option"
  s_periodic_login_interval :: "int option"
  s_forced_auto_reconnect :: "bool option"

record sections =
  Login :: "(pystr \<times> pystr) list option"
  Headers :: "(pystr \<times> pystr) list option"
  Settings :: "settings option"

datatype config = NotSubscriptable pystr | Config sections

text \<open>\<open>self.config['Login']\<close>, \<open>self.config['Headers']\<close>, \<open>self.config['Settings']\<close>.\<close>

definition config_getitem ::
  "config \<Rightarrow> (sections \<Rightarrow> 'a option) \<Rightarrow> string \<Rightarrow> exn + 'a" where
  "config_getitem cfg section name =
     (case cfg of
        NotSubscriptable msg \<Rightarrow> Inl (Exn TypeError msg)
      | Config c \<Rightarrow>
          (case section c of None \<Rightarrow> Inl (key_error (ascii name)) | Some v \<Rightarrow> Inr v))"

text \<open>\<open>self.config['Login'][k]\<close>.\<close>

definition login_item :: "config \<Rightarrow> string \<Rightarrow> exn + pystr" where
  "login_item cfg k =
     and_then (config_getitem cfg Login ''Login'') (\<lambda>login. dict_getitem login (ascii k))"

section \<open>The network\<close>

record request =
  req_url :: pystr
  req_data :: "(pystr \<times> pystr) list"
  req_headers :: "(pystr \<times> pystr) list"
  req_timeout :: int

text \<open>
  A response: its \<open>text\<close> and what \<open>json()\<close> does on it, returning the parsed value or
  raising (a body that is not JSON raises a \<open>ValueError\<close>).
\<close>

record response =
  status_code :: int
  body_text :: pystr
  body_json :: "exn + json"

text \<open>\<open>requests.post\<close>: the network answers a request with a response or an exception.\<close>

type_synonym network = "request \<Rightarrow> exn + response"

section \<open>The login worker (V1.2.2)\<close>

text \<open>The message literals of \<open>LoginWorker.do_login\<close>.\<close>

definition msg_login_ok_colon :: pystr where
  "msg_login_ok_colon = [0x767B, 0x5F55, 0x6210, 0x529F, 0x3A, 0x20]"

definition msg_login_failed_colon :: pystr where
  "msg_login_failed_colon = [0x767B, 0x5F55, 0x5931, 0x8D25, 0x3A, 0x20]"

definition msg_unknown_error :: pystr where
  "msg_unknown_error = [0x672A, 0x77E5, 0x9519, 0x8BEF]"

definition msg_login_ok :: pystr where
  "msg_login_ok = [0x767B, 0x5F55, 0x6210, 0x529F]"

definition msg_login_response_colon :: pystr where
  "msg_login_response_colon = [0x767B, 0x5F55, 0x54CD, 0x5E94, 0x3A, 0x20]"

definition msg_connect_failed_colon :: pystr where
  "msg_connect_failed_colon = [0x8FDE, 0x63A5, 0x5931, 0x8D25, 0x3A, 0x20]"

definition msg_error_colon :: pystr where
  "msg_error_colon = [0x9519, 0x8BEF, 0x3A, 0x20]"

text \<open>One emission of the signal \<open>login_result(message, success)\<close>.\<close>

type_synonym signal = "pystr \<times> bool"

definition get_login_data :: "config \<Rightarrow> exn + (pystr \<times> pystr) list" where
  "get_login_data cfg =
     and_then (login_item cfg ''opr'') (\<lambda>opr.
     and_then (login_item cfg ''userName'') (\<lambda>userName.
     and_then (login_item cfg ''pwd'') (\<lambda>pwd.
     and_then (login_item cfg ''auth_tag'') (\<lambda>auth_tag.
     and_then (login_item cfg ''rememberPwd'') (\<lambda>rememberPwd.
       Inr [(ascii ''opr'', opr), (ascii ''userName'', userName), (ascii ''pwd'', pwd),
            (ascii ''auth_tag'', auth_tag), (ascii ''rememberPwd'', rememberPwd)])))))"

definition get_headers :: "config \<Rightarrow> exn + (pystr \<times> pystr) list" where
  "get_headers cfg = config_getitem cfg Headers ''Headers''"

text \<open>The inner \<open>try\<close> of \<open>do_login\<close> with its handler \<open>except ValueError\<close>.\<close>

definition classify_response :: "(json \<Rightarrow> pystr) \<Rightarrow> response \<Rightarrow> exn + signal list" where
  "classify_response render resp =
     (case
        and_then (body_json resp) (\<lambda>result.
        and_then (json_get result (ascii ''success'') JNull) (\<lambda>success.
          if truthy success then
            and_then (json_get result (ascii ''msg'') (JStr [])) (\<lambda>msg.
              Inr [(msg_login_ok_colon @ py_str render msg, True)])
          else
            and_then (json_get result (ascii ''msg'') (JStr msg_unknown_error)) (\<lambda>msg.
              Inr [(msg_login_failed_colon @ py_str render msg, False)])))
      of
        Inr sigs \<Rightarrow> Inr sigs
      | Inl e \<Rightarrow>
          if is_ValueError (exn_class e) then
            (if py_in (ascii ''success'') (py_lower (body_text resp))
                \<or> py_in (ascii ''logon success'') (py_lower (body_text resp))
             then Inr [(msg_login_ok, True)]
             else Inr [(msg_login_response_colon @ take 100 (body_text resp), False)])
          else Inl e)"

text \<open>The body of the outer \<open>try\<close>.\<close>

definition login_attempt :: "(json \<Rightarrow> pystr) \<Rightarrow> config \<Rightarrow> network \<Rightarrow> exn + signal list" where
  "login_attempt render cfg post =
     and_then (login_item cfg ''url'') (\<lambda>login_url.
     and_then (get_login_data cfg) (\<lambda>login_data.
     and_then (get_headers cfg) (\<lambda>headers.
     and_then (post \<lparr>req_url = login_url, req_data = login_data,
                      req_headers = headers, req_timeout = 10\<rparr>) (\<lambda>resp.
       classify_response render resp))))"

text \<open>
  \<open>LoginWorker.do_login\<close>: the signals it emits, or the exception that leaves it.
\<close>

definition LoginWorker_do_login :: "(json \<Rightarrow> pystr) \<Rightarrow> config \<Rightarrow> network \<Rightarrow> exn + signal list" where
  "LoginWorker_do_login render cfg post =
     (case login_attempt render cfg post of
        Inr sigs \<Rightarrow> Inr sigs
      | Inl e \<Rightarrow>
          if is_RequestException (exn_class e)
          then Inr [(msg_connect_failed_colon @ exn_str e, False)]
          else Inr [(msg_error_colon @ exn_str e, False)])"

section \<open>The login worker (V1.2)\<close>

text \<open>
  \<open>LoginWorker\<close> of the file of version V1.2, method by method, with the two \<open>try\<close>
  statements of \<open>do_login\<close> in place.
\<close>

definition V12_get_login_data :: "config \<Rightarrow> exn + (pystr \<times> pystr) list" where
  "V12_get_login_data cfg =
     and_then (login_item cfg ''opr'') (\<lambda>opr.
     and_then (login_item cfg ''userName'') (\<lambda>userName.
     and_then (login_item cfg ''pwd'') (\<lambda>pwd.
     and_then (login_item cfg ''auth_tag'') (\<lambda>auth_tag.
     and_then (login_item cfg ''rememberPwd'') (\<lambda>rememberPwd.
       Inr [(ascii ''opr'', opr), (ascii ''userName'', userName), (ascii ''pwd'', pwd),
            (ascii ''auth_tag'', auth_tag), (ascii ''rememberPwd'', rememberPwd)])))))"

definition V12_get_headers :: "config \<Rightarrow> exn + (pystr \<times> pystr) list" where
  "V12_get_headers cfg = config_getitem cfg Headers ''Headers''"

definition V12_LoginWorker_do_login ::
  "(json \<Rightarrow> pystr) \<Rightarrow> config \<Rightarrow> network \<Rightarrow> exn + signal list" where
  "V12_LoginWorker_do_login render cfg post =
     (case
        and_then (login_item cfg ''url'') (\<lambda>login_url.
        and_then (V12_get_login_data cfg) (\<lambda>login_data.
        and_then (V12_get_headers cfg) (\<lambda>headers.
        and_then (post \<lparr>req_url = login_url, req_data = login_data,
                         req_headers = headers, req_timeout = 10\<rparr>) (\<lambda>resp.
          case
            and_then (body_json resp) (\<lambda>result.
            and_then (json_get result (ascii ''success'') JNull) (\<lambda>success.
              if truthy success then
                and_then (json_get result (ascii ''msg'') (JStr [])) (\<lambda>msg.
                  Inr [([0x767B, 0x5F55, 0x6210, 0x529F, 0x3A, 0x20] @ py_str render msg, True)])
              else
                and_then (json_get result (ascii ''msg'') (JStr [0x672A, 0x77E5, 0x9519, 0x8BEF]))
                  (\<lambda>msg.
                  Inr [([0x767B, 0x5F55, 0x5931, 0x8D25, 0x3A, 0x20] @ py_str render msg, False)])))
          of
            Inr sigs \<Rightarrow> Inr sigs
          | Inl e \<Rightarrow>
              if is_ValueError (exn_class e) then
                (if py_in (ascii ''success'') (py_lower (body_text resp))
                    \<or> py_in (ascii ''logon success'') (py_lower (body_text resp))
                 then Inr [([0x767B, 0x5F55, 0x6210, 0x529F], True)]
                 else Inr [([0x767B, 0x5F55, 0x54CD, 0x5E94, 0x3A, 0x20]
                            @ take 100 (body_text resp), False)])
              else Inl e))))
      of
        Inr sigs \<Rightarrow> Inr sigs
      | Inl e \<Rightarrow>
          if is_RequestException (exn_class e)
          then Inr [([0x8FDE, 0x63A5, 0x5931, 0x8D25, 0x3A, 0x20] @ exn_str e, False)]
          else Inr [([0x9519, 0x8BEF, 0x3A, 0x20] @ exn_str e, False)])"

section \<open>The application window (V1.2.2)\<close>

text \<open>
  \<open>NetworkLoginApp\<close>: the attributes its handlers read and write, the widgets whose
  signals call back into it, and what it puts out. Every handler runs to its end on the
  GUI thread before the next one starts; a login worker runs on a thread of its own and
  reports with a signal that is delivered as one more event.
\<close>

subsection \<open>Message literals\<close>

text \<open>The placeholders of the default configuration file.\<close>

definition YOUR_USERNAME :: pystr where
  "YOUR_USERNAME = ascii ''YOUR_USERNAME''"

definition YOUR_PASSWORD :: pystr where
  "YOUR_PASSWORD = ascii ''YOUR_PASSWORD''"

definition YOUR_LOGIN_SERVER :: pystr where
  "YOUR_LOGIN_SERVER = ascii ''YOUR_LOGIN_SERVER''"

text \<open>The texts the window logs and shows, by code point.\<close>

definition msg_not_configured :: pystr where
  "msg_not_configured =
     [0x9519, 0x8BEF, 0x3A, 0x20, 0x8BF7, 0x5148, 0x7F16, 0x8F91, 0x914D, 0x7F6E,
      0x6587, 0x4EF6, 0xFF0C, 0x586B, 0x5199, 0x6B63, 0x786E, 0x7684, 0x767B, 0x5F55,
      0x4FE1, 0x606F]"

definition title_config_error :: pystr where
  "title_config_error =
     [0x914D, 0x7F6E, 0x9519, 0x8BEF]"

definition msg_please_edit :: pystr where
  "msg_please_edit =
     [0x8BF7, 0x5148, 0x7F16, 0x8F91, 0x914D, 0x7F6E, 0x6587, 0x4EF6, 0x586B, 0x5199,
      0x767B, 0x5F55, 0x4FE1, 0x606F]"

definition title_login_failed :: pystr where
  "title_login_failed =
     [0x767B, 0x5F55, 0x5931, 0x8D25]"

definition mark_ok :: pystr where
  "mark_ok = [0x2713, 0x20]"

definition mark_failed :: pystr where
  "mark_failed = [0x2717, 0x20]"

definition msg_locked :: pystr where
  "msg_locked =
     [0x81EA, 0x52A8, 0x91CD, 0x8FDE, 0x5DF2, 0x88AB, 0x914D, 0x7F6E, 0x6587, 0x4EF6,
      0x9501, 0x5B9A, 0xFF0C, 0x65E0, 0x6CD5, 0x4FEE, 0x6539]"

definition msg_auto_reconnect_is :: pystr where
  "msg_auto_reconnect_is =
     [0x81EA, 0x52A8, 0x91CD, 0x8FDE, 0x5DF2]"

definition msg_on :: pystr where
  "msg_on = [0x5F00, 0x542F]"

definition msg_off :: pystr where
  "msg_off = [0x5173, 0x95ED]"

definition msg_network_down :: pystr where
  "msg_network_down =
     [0x68C0, 0x6D4B, 0x5230, 0x7F51, 0x7EDC, 0x4E0D, 0x53EF, 0x7528, 0xFF0C, 0x5C1D,
      0x8BD5, 0x767B, 0x5F55, 0x2E, 0x2E, 0x2E]"

definition msg_manual_login :: pystr where
  "msg_manual_login =
     [0x6267, 0x884C, 0x624B, 0x52A8, 0x767B, 0x5F55, 0x2E, 0x2E, 0x2E]"

definition msg_periodic_login_pre :: pystr where
  "msg_periodic_login_pre =
     [0x6267, 0x884C, 0x5B9A, 0x671F, 0x767B, 0x5F55, 0xFF08, 0x95F4, 0x9694, 0x3A,
      0x20]"

definition msg_periodic_login_post :: pystr where
  "msg_periodic_login_post =
     [0x79D2, 0xFF09, 0x2E, 0x2E, 0x2E]"

definition msg_periodic_enabled_pre :: pystr where
  "msg_periodic_enabled_pre =
     [0x5B9A, 0x671F, 0x767B, 0x5F55, 0x5DF2, 0x542F, 0x7528, 0xFF0C, 0x95F4, 0x9694,
      0x3A, 0x20]"

definition msg_seconds :: pystr where
  "msg_seconds = [0x79D2]"

definition msg_periodic_disabled :: pystr where
  "msg_periodic_disabled =
     [0x5B9A, 0x671F, 0x767B, 0x5F55, 0x5DF2, 0x5173, 0x95ED]"

definition msg_check_interval_pre :: pystr where
  "msg_check_interval_pre =
     [0x7F51, 0x7EDC, 0x68C0, 0x67E5, 0x95F4, 0x9694, 0x5DF2, 0x66F4, 0x65B0, 0x4E3A,
      0x20]"

definition msg_space_seconds :: pystr where
  "msg_space_seconds = [0x20, 0x79D2]"

definition msg_periodic_interval_pre :: pystr where
  "msg_periodic_interval_pre =
     [0x5B9A, 0x671F, 0x767B, 0x5F55, 0x95F4, 0x9694, 0x5DF2, 0x66F4, 0x65B0, 0x4E3A,
      0x20]"

definition msg_reload_failed_colon :: pystr where
  "msg_reload_failed_colon =
     [0x91CD, 0x65B0, 0x52A0, 0x8F7D, 0x914D, 0x7F6E, 0x6587, 0x4EF6, 0x5931, 0x8D25,
      0x3A, 0x20]"

definition title_config_load_error :: pystr where
  "title_config_load_error =
     [0x914D, 0x7F6E, 0x52A0, 0x8F7D, 0x9519, 0x8BEF]"

definition msg_config_reloaded :: pystr where
  "msg_config_reloaded =
     [0x914D, 0x7F6E, 0x6587, 0x4EF6, 0x5DF2, 0x91CD, 0x65B0, 0x52A0, 0x8F7D]"

definition title_config_updated :: pystr where
  "title_config_updated =
     [0x914D, 0x7F6E, 0x66F4, 0x65B0]"

definition msg_not_set :: pystr where
  "msg_not_set = [0x672A, 0x8BBE, 0x7F6E]"

definition label_user_colon :: pystr where
  "label_user_colon = [0x7528, 0x6237, 0x3A, 0x20]"

definition msg_config_changed :: pystr where
  "msg_config_changed =
     [0x68C0, 0x6D4B, 0x5230, 0x914D, 0x7F6E, 0x6587, 0x4EF6, 0x5DF2, 0x4FEE, 0x6539,
      0xFF0C, 0x6B63, 0x5728, 0x91CD, 0x65B0, 0x52A0, 0x8F7D, 0x2E, 0x2E, 0x2E]"

definition title_app :: pystr where
  "title_app =
     [0x7F51, 0x7EDC, 0x767B, 0x5F55, 0x5DE5, 0x5177]"

definition msg_started_in_tray :: pystr where
  "msg_started_in_tray =
     [0x7A0B, 0x5E8F, 0x5DF2, 0x542F, 0x52A8, 0x5E76, 0x5728, 0x7CFB, 0x7EDF, 0x6258,
      0x76D8, 0x4E2D, 0x8FD0, 0x884C]"

definition msg_started :: pystr where
  "msg_started =
     [0x7F51, 0x7EDC, 0x767B, 0x5F55, 0x5DE5, 0x5177, 0x5DF2, 0x542F, 0x52A8]"

definition msg_first_use :: pystr where
  "msg_first_use =
     [0x9996, 0x6B21, 0x4F7F, 0x7528, 0x8BF7, 0x5148, 0x7F16, 0x8F91, 0x914D, 0x7F6E,
      0x6587, 0x4EF6, 0xFF0C, 0x586B, 0x5199, 0x6B63, 0x786E, 0x7684, 0x767B, 0x5F55,
      0x4FE1, 0x606F]"

subsection \<open>State\<close>

text \<open>\<open>str(n)\<close> of an integer, as the f-strings of the log print an interval.\<close>

function digits :: "nat \<Rightarrow> pystr" where
  "digits n = (if n < 10 then [48 + n] else digits (n div 10) @ [48 + n mod 10])"
  by pat_completeness auto
termination
  by (relation "measure id") auto

declare digits.simps [simp del]

definition str_int :: "int \<Rightarrow> pystr" where
  "str_int i = (if i < 0 then 45 # digits (nat (- i)) else digits (nat i))"

datatype icon = Information | Warning

text \<open>
  \<open>periodic_login_timer\<close> is \<open>Some ms\<close> while the \<open>QTimer\<close> is active with interval
  \<open>ms\<close>. \<open>log_text\<close> holds the logged messages (without their time stamps),
  \<open>tray_messages\<close> the balloons of the tray icon, \<open>warnings\<close> the warning dialogs,
  \<open>saved\<close> the snapshots \<open>save_config\<close> wrote, \<open>login_threads\<close> the login workers
  that were started and have not reported yet, each with the configuration it was
  given. \<open>auto_reconnect_action\<close> is the checkable auto-reconnect entry of the tray menu,
  made in \<open>create_system_tray\<close>. Labels that only display a time or a tool tip are
  left out, and with them \<open>update_next_periodic_time\<close>, which sets such a label.
\<close>

record app =
  config :: config
  auto_reconnect :: bool
  check_interval :: int
  periodic_login_interval :: int
  forced_auto_reconnect :: bool
  config_last_modified :: nat
  auto_reconnect_cb_checked :: bool
  auto_reconnect_cb_enabled :: bool
  auto_reconnect_action_checked :: bool
  auto_reconnect_action_enabled :: bool
  interval_spin :: int
  periodic_interval_spin :: int
  username_label :: pystr
  periodic_login_timer :: "int option"
  log_text :: "pystr list"
  tray_messages :: "(pystr \<times> pystr \<times> icon) list"
  warnings :: "(pystr \<times> pystr) list"
  saved :: "config list"
  login_threads :: "config list"

definition log_msg :: "pystr \<Rightarrow> app \<Rightarrow> app" where
  "log_msg message s = s\<lparr>log_text := log_text s @ [message]\<rparr>"

definition showMessage :: "pystr \<Rightarrow> pystr \<Rightarrow> icon \<Rightarrow> app \<Rightarrow> app" where
  "showMessage title message ic s = s\<lparr>tray_messages := tray_messages s @ [(title, message, ic)]\<rparr>"

text \<open>
  \<open>save_config\<close> opens the file and writes the configuration. \<open>disk\<close> is what that
  does while the event at hand is handled: \<open>None\<close> when it succeeds, \<open>Some e\<close> when it
  raises \<open>e\<close> (an \<open>OSError\<close> of \<open>open\<close>, say). Every caller is a slot and an exception
  ends it, so no event sees more than its first failing write.
\<close>

definition save_config :: "exn option \<Rightarrow> app \<Rightarrow> exn + app" where
  "save_config disk s =
     (case disk of
        Some e \<Rightarrow> Inl e
      | None \<Rightarrow> Inr (s\<lparr>saved := saved s @ [config s]\<rparr>))"

text \<open>\<open>self.config['Settings'][k] = v\<close>: the update \<open>upd\<close> of the settings, in place.\<close>

definition set_setting :: "(settings \<Rightarrow> settings) \<Rightarrow> app \<Rightarrow> exn + app" where
  "set_setting upd s =
     and_then (config_getitem (config s) Settings ''Settings'') (\<lambda>st.
       case config s of
         Config c \<Rightarrow> Inr (s\<lparr>config := Config (c\<lparr>Settings := Some (upd st)\<rparr>)\<rparr>)
       | NotSubscriptable msg \<Rightarrow> Inl (Exn TypeError msg))"

text \<open>\<open>d.get(k, default)\<close> on the settings.\<close>

definition setting :: "'a option \<Rightarrow> 'a \<Rightarrow> 'a" where
  "setting v dflt = (case v of None \<Rightarrow> dflt | Some x \<Rightarrow> x)"

subsection \<open>Logging in\<close>

text \<open>The condition of the guard in \<open>NetworkLoginApp.do_login\<close>, operands left to right.\<close>

definition not_configured :: "config \<Rightarrow> exn + bool" where
  "not_configured cfg =
     and_then (login_item cfg ''userName'') (\<lambda>userName.
       if userName = YOUR_USERNAME then Inr True
       else and_then (login_item cfg ''pwd'') (\<lambda>pwd.
         if pwd = YOUR_PASSWORD then Inr True
         else and_then (login_item cfg ''url'') (\<lambda>url.
           Inr (py_in YOUR_LOGIN_SERVER url))))"

text \<open>\<open>NetworkLoginApp.do_login\<close>: refuse, or start a worker thread on the configuration.\<close>

definition do_login :: "app \<Rightarrow> exn + app" where
  "do_login s =
     and_then (not_configured (config s)) (\<lambda>refuse.
       if refuse then
         Inr (showMessage title_config_error msg_please_edit Warning
               (log_msg msg_not_configured s))
       else Inr (s\<lparr>login_threads := login_threads s @ [config s]\<rparr>))"

definition on_login_result :: "pystr \<Rightarrow> bool \<Rightarrow> app \<Rightarrow> app" where
  "on_login_result message success s =
     (if success then
        showMessage msg_login_ok message Information (log_msg (mark_ok @ message) s)
      else
        showMessage title_login_failed message Warning (log_msg (mark_failed @ message) s))"

definition manual_login :: "app \<Rightarrow> exn + app" where
  "manual_login s = do_login (log_msg msg_manual_login s)"

definition on_network_status_changed :: "bool \<Rightarrow> app \<Rightarrow> exn + app" where
  "on_network_status_changed status s =
     (if \<not> status \<and> auto_reconnect s then do_login (log_msg msg_network_down s)
      else Inr s)"

subsection \<open>The periodic timer\<close>

text \<open>
  An \<open>int\<close> argument of a Qt method has to fit a C \<open>int\<close>: PyQt raises \<open>OverflowError\<close>
  for a value outside \<open>-2147483648 .. 2147483647\<close>, before the method does anything.
\<close>

definition msg_overflowed :: pystr where
  "msg_overflowed =
     ascii ''argument 1 overflowed: value must be in the range -2147483648 to 2147483647''"

definition qt_int :: "int \<Rightarrow> exn + int" where
  "qt_int v =
     (if - 2147483648 \<le> v \<and> v \<le> 2147483647 then Inr v
      else Inl (Exn OverflowError msg_overflowed))"

text \<open>
  \<open>update_periodic_timer\<close>: \<open>QTimer.start(interval * 1000)\<close> or \<open>QTimer.stop()\<close>, then
  the log line. \<open>Inl\<close> is the exception it raises to its caller.
\<close>

definition update_periodic_timer :: "app \<Rightarrow> exn + app" where
  "update_periodic_timer s =
     (if periodic_login_interval s > 0 then
        and_then (qt_int (periodic_login_interval s * 1000)) (\<lambda>msec.
          Inr (log_msg (msg_periodic_enabled_pre @ str_int (periodic_login_interval s)
                          @ msg_seconds)
                (s\<lparr>periodic_login_timer := Some msec\<rparr>)))
      else
        Inr (log_msg msg_periodic_disabled (s\<lparr>periodic_login_timer := None\<rparr>)))"

definition periodic_login :: "app \<Rightarrow> exn + app" where
  "periodic_login s =
     do_login (log_msg (msg_periodic_login_pre @ str_int (periodic_login_interval s)
                         @ msg_periodic_login_post) s)"

definition update_periodic_login_interval :: "exn option \<Rightarrow> int \<Rightarrow> app \<Rightarrow> exn + app" where
  "update_periodic_login_interval disk interval s =
     and_then (set_setting (\<lambda>st. st\<lparr>s_periodic_login_interval := Some interval\<rparr>)
                 (s\<lparr>periodic_login_interval := interval\<rparr>)) (\<lambda>s.
     and_then (save_config disk s) (\<lambda>s.
       update_periodic_timer
         (log_msg (if interval > 0
                   then msg_periodic_interval_pre @ str_int interval @ msg_space_seconds
                   else msg_periodic_disabled) s)))"

definition update_check_interval :: "exn option \<Rightarrow> int \<Rightarrow> app \<Rightarrow> exn + app" where
  "update_check_interval disk interval s =
     and_then (set_setting (\<lambda>st. st\<lparr>s_check_interval := Some interval\<rparr>)
                 (s\<lparr>check_interval := interval\<rparr>)) (\<lambda>s.
     and_then (save_config disk s) (\<lambda>s.
       Inr (log_msg (msg_check_interval_pre @ str_int interval @ msg_space_seconds) s)))"

subsection \<open>The auto-reconnect switch\<close>

text \<open>
  \<open>toggle_auto_reconnect(checked)\<close>: \<open>Some b\<close> when the tray action passes a bool,
  \<open>None\<close> when the check box's \<open>stateChanged\<close> passes its state. In the locked branch
  \<open>setChecked(True)\<close> on a box that is not checked checks it and, through
  \<open>stateChanged\<close>, runs this slot once more before the branch goes on. The slot returns
  \<open>None\<close> on every path: its caller gets no value back.
\<close>

function toggle_auto_reconnect :: "exn option \<Rightarrow> bool option \<Rightarrow> app \<Rightarrow> exn + app" where
  "toggle_auto_reconnect disk checked s =
     (if forced_auto_reconnect s then
        and_then
          (if auto_reconnect_cb_checked s then Inr s
           else toggle_auto_reconnect disk None (s\<lparr>auto_reconnect_cb_checked := True\<rparr>))
          (\<lambda>s. Inr (log_msg msg_locked s))
      else
        and_then
          (set_setting
             (\<lambda>st. st\<lparr>s_auto_reconnect :=
                Some (case checked of Some b \<Rightarrow> b | None \<Rightarrow> auto_reconnect_cb_checked s)\<rparr>)
             (s\<lparr>auto_reconnect :=
                (case checked of Some b \<Rightarrow> b | None \<Rightarrow> auto_reconnect_cb_checked s)\<rparr>))
          (\<lambda>s.
        and_then (save_config disk s) (\<lambda>s.
          Inr (log_msg (msg_auto_reconnect_is @ (if auto_reconnect s then msg_on else msg_off))
                s))))"
  by pat_completeness auto
termination
  by (relation "measure (\<lambda>(disk, checked, s). if auto_reconnect_cb_checked s then 0 else 1)")
    auto

declare toggle_auto_reconnect.simps [simp del]

subsection \<open>Widgets set by the program\<close>

text \<open>
  \<open>QCheckBox.setChecked\<close> and \<open>QSpinBox.setValue\<close> (which keeps the value inside the
  box's range) emit their change signal when the widget's state changes, and the
  connected slot runs at once. An exception that leaves such a slot does not come back
  to the statement that set the widget: it ends the process, which is the result \<open>Inl\<close>.
\<close>

definition auto_reconnect_cb_setChecked :: "exn option \<Rightarrow> bool \<Rightarrow> app \<Rightarrow> exn + app" where
  "auto_reconnect_cb_setChecked disk b s =
     (if auto_reconnect_cb_checked s = b then Inr s
      else toggle_auto_reconnect disk None (s\<lparr>auto_reconnect_cb_checked := b\<rparr>))"

definition bound :: "int \<Rightarrow> int \<Rightarrow> int \<Rightarrow> int" where
  "bound lo hi v = max lo (min hi v)"

text \<open>
  What a statement inside a \<open>try\<close> block gives: \<open>Inr (s, None)\<close> when it returned in
  state \<open>s\<close>, \<open>Inr (s, Some e)\<close> when it raised \<open>e\<close> to the block in state \<open>s\<close>, and
  \<open>Inl\<close> when an exception in a slot ended the process. \<open>try_then\<close> goes on with the
  next statement of the block only after a return.
\<close>

type_synonym tried = "exn + app \<times> exn option"

definition try_then :: "tried \<Rightarrow> (app \<Rightarrow> tried) \<Rightarrow> tried" where
  "try_then m f =
     (case m of
        Inl e \<Rightarrow> Inl e
      | Inr (s, Some e) \<Rightarrow> Inr (s, Some e)
      | Inr (s, None) \<Rightarrow> f s)"

text \<open>\<open>setValue\<close> raises for a value that is no C \<open>int\<close>, and otherwise sets the box.\<close>

definition interval_spin_setValue :: "exn option \<Rightarrow> int \<Rightarrow> app \<Rightarrow> tried" where
  "interval_spin_setValue disk v s =
     (case qt_int v of
        Inl e \<Rightarrow> Inr (s, Some e)
      | Inr v \<Rightarrow>
          if bound 10 3600 v = interval_spin s then Inr (s, None)
          else and_then (update_check_interval disk (bound 10 3600 v)
                           (s\<lparr>interval_spin := bound 10 3600 v\<rparr>))
                 (\<lambda>s. Inr (s, None)))"

definition periodic_interval_spin_setValue :: "exn option \<Rightarrow> int \<Rightarrow> app \<Rightarrow> tried" where
  "periodic_interval_spin_setValue disk v s =
     (case qt_int v of
        Inl e \<Rightarrow> Inr (s, Some e)
      | Inr v \<Rightarrow>
          if bound 0 86400 v = periodic_interval_spin s then Inr (s, None)
          else and_then (update_periodic_login_interval disk (bound 0 86400 v)
                           (s\<lparr>periodic_interval_spin := bound 0 86400 v\<rparr>))
                 (\<lambda>s. Inr (s, None)))"

subsection \<open>Reloading the configuration\<close>

text \<open>
  The \<open>try\<close> block of \<open>reload_config\<close>. \<open>loaded\<close> is what opening and parsing the file
  gives at that moment, \<open>mtime\<close> what \<open>os.path.getmtime\<close> gives, \<open>disk\<close> what writing
  the file does in the slots that the widgets run. The block returns the state it
  reached together with the exception that ended it, if one did.
\<close>

definition reload_try :: "exn option \<Rightarrow> exn + config \<Rightarrow> exn + nat \<Rightarrow> app \<Rightarrow> tried" where
  "reload_try disk loaded mtime s =
     (case loaded of
        Inl e \<Rightarrow> Inr (s, Some e)
      | Inr new_config \<Rightarrow>
          (let s = s\<lparr>config := new_config\<rparr> in
           case config_getitem (config s) Settings ''Settings'' of
             Inl e \<Rightarrow> Inr (s, Some e)
           | Inr st \<Rightarrow>
               (let s = s\<lparr>auto_reconnect := setting (s_auto_reconnect st) True,
                          check_interval := setting (s_check_interval st) 60,
                          periodic_login_interval := setting (s_periodic_login_interval st) 0,
                          forced_auto_reconnect := setting (s_forced_auto_reconnect st) False\<rparr>;
                    s = (if forced_auto_reconnect s
                         then s\<lparr>auto_reconnect := True, auto_reconnect_cb_enabled := False\<rparr>
                         else s\<lparr>auto_reconnect_cb_enabled := True\<rparr>)
                in
                and_then (auto_reconnect_cb_setChecked disk (auto_reconnect s) s) (\<lambda>s.
                try_then (interval_spin_setValue disk (check_interval s) s) (\<lambda>s.
                try_then (periodic_interval_spin_setValue disk (periodic_login_interval s) s)
                  (\<lambda>s.
                  case config_getitem (config s) Login ''Login'' of
                    Inl e \<Rightarrow> Inr (s, Some e)
                  | Inr login \<Rightarrow>
                      (let s = s\<lparr>username_label :=
                                   label_user_colon
                                   @ dict_get login (ascii ''userName'') msg_not_set\<rparr>
                       in
                       case update_periodic_timer s of
                         Inl e \<Rightarrow> Inr (s, Some e)
                       | Inr s \<Rightarrow>
                           (case mtime of
                              Inl e \<Rightarrow> Inr (s, Some e)
                            | Inr t \<Rightarrow>
                                Inr (showMessage title_config_updated msg_config_reloaded
                                       Information
                                       (log_msg msg_config_reloaded
                                          (s\<lparr>config_last_modified := t\<rparr>)),
                                     None)))))))))"

text \<open>\<open>reload_config\<close>: the block above and its handler \<open>except Exception\<close>.\<close>

definition reload_config :: "exn option \<Rightarrow> exn + config \<Rightarrow> exn + nat \<Rightarrow> app \<Rightarrow> exn + app" where
  "reload_config disk loaded mtime s =
     and_then (reload_try disk loaded mtime s) (\<lambda>(s, raised).
       case raised of
         None \<Rightarrow> Inr s
       | Some e \<Rightarrow>
           Inr ((log_msg (msg_reload_failed_colon @ exn_str e) s)
                  \<lparr>warnings := warnings s @
                     [(title_config_load_error, msg_reload_failed_colon @ exn_str e)]\<rparr>))"

text \<open>
  \<open>check_config_update\<close>, run by the two second timer: \<open>current\<close> is the file's
  modification time now; an exception of \<open>getmtime\<close> is passed over.
\<close>

definition check_config_update ::
  "exn option \<Rightarrow> exn + nat \<Rightarrow> exn + config \<Rightarrow> exn + nat \<Rightarrow> app \<Rightarrow> exn + app" where
  "check_config_update disk current loaded mtime s =
     (case current of
        Inl e \<Rightarrow> Inr s
      | Inr current_modified \<Rightarrow>
          if current_modified \<noteq> config_last_modified s then
            reload_config disk loaded mtime
              (log_msg msg_config_changed (s\<lparr>config_last_modified := current_modified\<rparr>))
          else Inr s)"

subsection \<open>Start\<close>

text \<open>
  \<open>NetworkLoginApp.__init__\<close> on the loaded configuration, in the order of its
  statements: the settings, the two spin boxes of \<open>init_ui\<close> (their signals are
  connected after their first values are set, so no slot runs here), the user name,
  the periodic timer, the tray menu, the modification time. Then the notices of
  \<open>main\<close>. An exception ends the process.
\<close>

definition init :: "config \<Rightarrow> exn + nat \<Rightarrow> exn + app" where
  "init cfg mtime =
     and_then (config_getitem cfg Settings ''Settings'') (\<lambda>st.
     and_then (qt_int (setting (s_check_interval st) 60)) (\<lambda>check.
     and_then (qt_int (setting (s_periodic_login_interval st) 0)) (\<lambda>periodic.
     and_then (config_getitem cfg Login ''Login'') (\<lambda>login.
     and_then
       (update_periodic_timer
          \<lparr>config = cfg,
           auto_reconnect =
             (if setting (s_forced_auto_reconnect st) False then True
              else setting (s_auto_reconnect st) True),
           check_interval = setting (s_check_interval st) 60,
           periodic_login_interval = setting (s_periodic_login_interval st) 0,
           forced_auto_reconnect = setting (s_forced_auto_reconnect st) False,
           config_last_modified = 0,
           auto_reconnect_cb_checked =
             (if setting (s_forced_auto_reconnect st) False then True
              else setting (s_auto_reconnect st) True),
           auto_reconnect_cb_enabled = (\<not> setting (s_forced_auto_reconnect st) False),
           auto_reconnect_action_checked =
             (if setting (s_forced_auto_reconnect st) False then True
              else setting (s_auto_reconnect st) True),
           auto_reconnect_action_enabled = (\<not> setting (s_forced_auto_reconnect st) False),
           interval_spin = bound 10 3600 check,
           periodic_interval_spin = bound 0 86400 periodic,
           username_label = label_user_colon @ dict_get login (ascii ''userName'') msg_not_set,
           periodic_login_timer = None,
           log_text = [],
           tray_messages = [],
           warnings = [],
           saved = [],
           login_threads = []\<rparr>) (\<lambda>s.
     and_then mtime (\<lambda>t.
       Inr (s\<lparr>config_last_modified := t\<rparr>)))))))"

definition main :: "config \<Rightarrow> exn + nat \<Rightarrow> exn + app" where
  "main cfg mtime =
     and_then (init cfg mtime) (\<lambda>window.
       Inr (log_msg msg_first_use
             (log_msg msg_started
               (showMessage title_app msg_started_in_tray Information window))))"

subsection \<open>Events\<close>

text \<open>
  What happens to the window, one event at a time: the login button or tray entry, a
  status from the network monitor, the periodic timer, the result signal of the worker
  thread at a position of \<open>login_threads\<close>, a click on the check box, a click on the
  tray's auto-reconnect entry (which flips its check mark and passes the new one), a
  new value typed into a spin box, the reload button or tray entry, and the tick of the
  timer that watches the configuration file. An event whose handler may write the file
  carries what writing does then, the others what reading the file gives.
\<close>

datatype event =
    LoginClicked
  | NetworkStatus bool
  | PeriodicTimeout
  | LoginResult nat pystr bool
  | CheckboxClicked "exn option"
  | TrayToggled "exn option"
  | IntervalSpinChanged int "exn option"
  | PeriodicSpinChanged int "exn option"
  | ReloadClicked "exn option" "exn + config" "exn + nat"
  | ConfigMonitorTimeout "exn option" "exn + nat" "exn + config" "exn + nat"

text \<open>
  When an event can happen: a timer fires only while active, a result comes from a
  thread that runs, a disabled check box or menu entry takes no click, and a spin box
  takes a new value of its range.
\<close>

fun enabled :: "event \<Rightarrow> app \<Rightarrow> bool" where
  "enabled PeriodicTimeout s = (periodic_login_timer s \<noteq> None)"
| "enabled (LoginResult i message success) s = (i < length (login_threads s))"
| "enabled (CheckboxClicked disk) s = auto_reconnect_cb_enabled s"
| "enabled (TrayToggled disk) s = auto_reconnect_action_enabled s"
| "enabled (IntervalSpinChanged v disk) s =
     (10 \<le> v \<and> v \<le> 3600 \<and> v \<noteq> interval_spin s)"
| "enabled (PeriodicSpinChanged v disk) s =
     (0 \<le> v \<and> v \<le> 86400 \<and> v \<noteq> periodic_interval_spin s)"
| "enabled e s = True"

text \<open>The handler an event runs; \<open>Inl\<close> is an exception that no handler caught.\<close>

fun step :: "event \<Rightarrow> app \<Rightarrow> exn + app" where
  "step LoginClicked s = manual_login s"
| "step (NetworkStatus status) s = on_network_status_changed status s"
| "step PeriodicTimeout s = periodic_login s"
| "step (LoginResult i message success) s =
     Inr (on_login_result message success
           (s\<lparr>login_threads := take i (login_threads s) @ drop (Suc i) (login_threads s)\<rparr>))"
| "step (CheckboxClicked disk) s =
     toggle_auto_reconnect disk None
       (s\<lparr>auto_reconnect_cb_checked := \<not> auto_reconnect_cb_checked s\<rparr>)"
| "step (TrayToggled disk) s =
     toggle_auto_reconnect disk (Some (\<not> auto_reconnect_action_checked s))
       (s\<lparr>auto_reconnect_action_checked := \<not> auto_reconnect_action_checked s\<rparr>)"
| "step (IntervalSpinChanged v disk) s =
     update_check_interval disk v (s\<lparr>interval_spin := v\<rparr>)"
| "step (PeriodicSpinChanged v disk) s =
     update_periodic_login_interval disk v (s\<lparr>periodic_interval_spin := v\<rparr>)"
| "step (ReloadClicked disk loaded mtime) s = reload_config disk loaded mtime s"
| "step (ConfigMonitorTimeout disk current loaded mtime) s =
     check_config_update disk current loaded mtime s"

text \<open>The states the window can be in: after the start, and after each event.\<close>

inductive reachable :: "app \<Rightarrow> bool" where
  start: "main cfg mtime = Inr s \<Longrightarrow> reachable s"
| event: "reachable s \<Longrightarrow> enabled e s \<Longrightarrow> step e s = Inr s' \<Longrightarrow> reachable s'"

text \<open>Running a list of events from a state; \<open>None\<close> when one of them cannot happen.\<close>

fun run :: "event list \<Rightarrow> app \<Rightarrow> (exn + app) option" where
  "run [] s = Some (Inr s)"
| "run (e # es) s =
     (if enabled e s then
        (case step e s of Inl x \<Rightarrow> Some (Inl x) | Inr s' \<Rightarrow> run es s')
      else None)"

section \<open>Configurations used as examples\<close>


text \<open>A configuration a user has filled in: a portal address, an account, default settings.\<close>

definition example_login :: "(pystr \<times> pystr) list" where
  "example_login =
     [(ascii ''url'', ascii ''http://10.0.0.1/ac_portal/login.php''),
      (ascii ''opr'', ascii ''pwdLogin''),
      (ascii ''userName'', ascii ''alice''),
      (ascii ''pwd'', ascii ''secret''),
      (ascii ''auth_tag'', ascii ''1700000000''),
      (ascii ''rememberPwd'', ascii ''0'')]"

definition example_settings :: settings where
  "example_settings =
     \<lparr>s_auto_reconnect = Some True,
      s_check_interval = Some 60,
      s_test_url = Some (ascii ''http://www.baidu.com''),
      s_test_timeout = Some 5,
      s_periodic_login_interval = Some 0,
      s_forced_auto_reconnect = Some False\<rparr>"

definition example_config :: config where
  "example_config = Config
     \<lparr>Login = Some example_login,
      Headers = Some [(ascii ''Accept'', ascii ''*/*'')],
      Settings = Some example_settings\<rparr>"

text \<open>The same with auto-reconnect locked by the file.\<close>

definition locked_config :: config where
  "locked_config = Config
     \<lparr>Login = Some example_login,
      Headers = Some [(ascii ''Accept'', ascii ''*/*'')],
      Settings = Some (example_settings\<lparr>s_forced_auto_reconnect := Some True\<rparr>)\<rparr>"

text \<open>The request the worker sends for \<open>example_config\<close>.\<close>

definition example_request :: request where
  "example_request =
     \<lparr>req_url = ascii ''http://10.0.0.1/ac_portal/login.php'',
      req_data =
        [(ascii ''opr'', ascii ''pwdLogin''), (ascii ''userName'', ascii ''alice''),
         (ascii ''pwd'', ascii ''secret''), (ascii ''auth_tag'', ascii ''1700000000''),
         (ascii ''rememberPwd'', ascii ''0'')],
      req_headers = [(ascii ''Accept'', ascii ''*/*'')],
      req_timeout = 10\<rparr>"

text \<open>A response with a JSON body, and one whose body is not JSON.\<close>

definition json_response :: "pystr \<Rightarrow> json \<Rightarrow> response" where
  "json_response body v = \<lparr>status_code = 200, body_text = body, body_json = Inr v\<rparr>"

definition text_response :: "pystr \<Rightarrow> response" where
  "text_response body =
     \<lparr>status_code = 200, body_text = body,
      body_json = Inl (Exn RequestValueError (ascii ''Expecting value: line 1 column 1 (char 0)''))\<rparr>"

text \<open>The window right after the start on \<open>example_config\<close>, on \<open>locked_config\<close> and on
  the default file.\<close>

definition example_window :: app where
  "example_window =
     \<lparr>config = example_config,
      auto_reconnect = True,
      check_interval = 60,
      periodic_login_interval = 0,
      forced_auto_reconnect = False,
      config_last_modified = 0,
      auto_reconnect_cb_checked = True,
      auto_reconnect_cb_enabled = True,
      auto_reconnect_action_checked = True,
      auto_reconnect_action_enabled = True,
      interval_spin = 60,
      periodic_interval_spin = 0,
      username_label = label_user_colon @ ascii ''alice'',
      periodic_login_timer = None,
      log_text = [msg_periodic_disabled, msg_started, msg_first_use],
      tray_messages = [(title_app, msg_started_in_tray, Information)],
      warnings = [],
      saved = [],
      login_threads = []\<rparr>"

definition locked_window :: app where
  "locked_window = example_window
     \<lparr>config := locked_config, forced_auto_reconnect := True,
      auto_reconnect_cb_enabled := False, auto_reconnect_action_enabled := False\<rparr>"


text \<open>
  The window started on \<open>example_config\<close> after the file was changed to \<open>locked_config\<close>
  and reloaded: the tray's auto-reconnect entry, enabled at the start, is still there to
  be clicked.
\<close>

definition relocked_window :: app where
  "relocked_window = example_window
     \<lparr>config := locked_config, forced_auto_reconnect := True,
      auto_reconnect_cb_enabled := False, config_last_modified := 1,
      log_text := log_text example_window @ [msg_periodic_disabled, msg_config_reloaded],
      tray_messages := tray_messages example_window @
        [(title_config_updated, msg_config_reloaded, Information)]\<rparr>"




section \<open>An invariant of the window\<close>

text \<open>
  What every handler keeps, also a reload that fails half way: while the file locks
  auto-reconnect, auto-reconnect is on and its check box is checked and disabled.
\<close>

definition window_inv :: "app \<Rightarrow> bool" where
  "window_inv s \<longleftrightarrow>
     (forced_auto_reconnect s \<longrightarrow>
        auto_reconnect s \<and> auto_reconnect_cb_checked s \<and> \<not> auto_reconnect_cb_enabled s)"

section \<open>Facts about the Python operations\<close>

lemma and_then_Inl [simp]: "and_then (Inl e) f = Inl e"
  by (simp add: and_then_def)

lemma and_then_Inr [simp]: "and_then (Inr v) f = f v"
  by (simp add: and_then_def)

lemma and_then_eq_Inr: "and_then m f = Inr y \<longleftrightarrow> (\<exists>x. m = Inr x \<and> f x = Inr y)"
  by (cases m) simp_all


lemma try_then_Inl [simp]: "try_then (Inl e) f = Inl e"
  by (simp add: try_then_def)

lemma try_then_raised [simp]: "try_then (Inr (s, Some e)) f = Inr (s, Some e)"
  by (simp add: try_then_def)

lemma try_then_returned [simp]: "try_then (Inr (s, None)) f = f s"
  by (simp add: try_then_def)

lemma try_then_eq_Inr:
  "try_then m f = Inr (s', r) \<longleftrightarrow>
     (\<exists>e. m = Inr (s', Some e) \<and> r = Some e) \<or> (\<exists>s1. m = Inr (s1, None) \<and> f s1 = Inr (s', r))"
proof (cases m)
  case (Inl e)
  then show ?thesis by simp
next
  case (Inr p)
  obtain s1 r1 where "p = (s1, r1)" by (cases p)
  with Inr show ?thesis by (cases r1) auto
qed

lemma qt_int_Inr: "qt_int v = Inr w \<longleftrightarrow> w = v \<and> - 2147483648 \<le> v \<and> v \<le> 2147483647"
  by (auto simp: qt_int_def)

lemma qt_int_ok: "- 2147483648 \<le> v \<Longrightarrow> v \<le> 2147483647 \<Longrightarrow> qt_int v = Inr v"
  by (simp add: qt_int_def)

lemma json_get_JObj [simp]: "json_get (JObj kvs) k dflt = Inr (dict_get kvs k dflt)"
  by (simp add: json_get_def)


lemma example_url: "login_item example_config ''url'' = Inr (req_url example_request)"
  by (simp add: example_config_def example_login_def example_request_def login_item_def
      config_getitem_def dict_getitem_def ascii_def)

lemma example_data: "get_login_data example_config = Inr (req_data example_request)"
  by (simp add: example_config_def example_login_def example_request_def get_login_data_def
      login_item_def config_getitem_def dict_getitem_def ascii_def)

lemma example_headers: "get_headers example_config = Inr (req_headers example_request)"
  by (simp add: example_config_def example_request_def get_headers_def config_getitem_def)

section \<open>The example windows are start states\<close>

lemma bound_60 [simp]: "bound 10 3600 60 = 60" "bound 0 86400 0 = 0"
  by (simp_all add: bound_def)

lemma main_example: "main example_config (Inr 0) = Inr example_window"
  by (simp add: main_def init_def example_window_def example_config_def example_settings_def
      example_login_def config_getitem_def setting_def dict_get_def update_periodic_timer_def
      qt_int_def log_msg_def showMessage_def ascii_def)

lemma main_locked: "main locked_config (Inr 0) = Inr locked_window"
  by (simp add: main_def init_def locked_window_def example_window_def locked_config_def
      example_settings_def example_login_def config_getitem_def setting_def dict_get_def
      update_periodic_timer_def qt_int_def log_msg_def showMessage_def ascii_def)





lemma example_login_items:
  "login_item example_config ''userName'' = Inr (ascii ''alice'')"
  "login_item example_config ''pwd'' = Inr (ascii ''secret'')"
  "login_item example_config ''url'' = Inr (ascii ''http://10.0.0.1/ac_portal/login.php'')"
  by (simp_all add: example_config_def example_login_def login_item_def config_getitem_def
      dict_getitem_def ascii_def)

lemma reload_locks:
  "reload_config disk (Inr locked_config) (Inr 1) example_window = Inr relocked_window"
  by (simp add: reload_config_def reload_try_def locked_config_def example_window_def
      relocked_window_def example_settings_def example_login_def config_getitem_def setting_def
      dict_get_def auto_reconnect_cb_setChecked_def interval_spin_setValue_def
      periodic_interval_spin_setValue_def update_periodic_timer_def qt_int_def log_msg_def
      showMessage_def ascii_def)

section \<open>The login worker: results\<close>



lemma login_attempt_reaches_post:
  assumes "login_item cfg ''url'' = Inr u" and "get_login_data cfg = Inr d"
    and "get_headers cfg = Inr h"
  shows "login_attempt render cfg post =
           and_then (post \<lparr>req_url = u, req_data = d, req_headers = h, req_timeout = 10\<rparr>)
             (classify_response render)"
  using assms by (simp add: login_attempt_def)

lemma classify_response_dict:
  assumes "body_json resp = Inr (JObj kvs)"
  shows "classify_response render resp =
           (if truthy (dict_get kvs (ascii ''success'') JNull)
            then Inr [(msg_login_ok_colon
                       @ py_str render (dict_get kvs (ascii ''msg'') (JStr [])), True)]
            else Inr [(msg_login_failed_colon
                       @ py_str render (dict_get kvs (ascii ''msg'') (JStr msg_unknown_error)),
                       False)])"
  using assms by (simp add: classify_response_def)

lemma classify_response_not_json:
  assumes "body_json resp = Inl e" and "is_ValueError (exn_class e)"
  shows "classify_response render resp =
           (if py_in (ascii ''success'') (py_lower (body_text resp))
               \<or> py_in (ascii ''logon success'') (py_lower (body_text resp))
            then Inr [(msg_login_ok, True)]
            else Inr [(msg_login_response_colon @ take 100 (body_text resp), False)])"
  using assms by (simp add: classify_response_def)






text \<open>
  C10. The login workers of V1.2 and V1.2.2 are the same function: for every
  configuration and everything the network may do, \<open>LoginWorker.do_login\<close> of both
  versions gives the same result, signal for signal.
\<close>

theorem V12_LoginWorker_do_login_eq:
  "V12_LoginWorker_do_login render cfg post = LoginWorker_do_login render cfg post"
  unfolding V12_LoginWorker_do_login_def LoginWorker_do_login_def login_attempt_def
    classify_response_def V12_get_login_data_def get_login_data_def V12_get_headers_def
    get_headers_def msg_login_ok_colon_def msg_login_failed_colon_def msg_unknown_error_def
    msg_login_ok_def msg_login_response_colon_def msg_connect_failed_colon_def
    msg_error_colon_def
  by (rule refl)

text \<open>
  C3, as the program has it. When the request was sent and a response came back:
  a body that parses to a JSON mapping is classified by the truth value of its
  \<open>success\<close> entry, an absent entry counting as false: true gives success with the
  \<open>msg\<close> entry (empty when absent), false gives failure with the \<open>msg\<close> entry (the
  text for "unknown error" when absent); a body that does not parse as JSON gives
  success when its text, lower-cased, contains \<open>success\<close> or \<open>logon success\<close>, and
  otherwise failure with the first 100 characters of the body.
\<close>

theorem LoginWorker_do_login_classifies:
  assumes "login_item cfg ''url'' = Inr u"
    and "get_login_data cfg = Inr d"
    and "get_headers cfg = Inr h"
    and "post \<lparr>req_url = u, req_data = d, req_headers = h, req_timeout = 10\<rparr> = Inr resp"
  shows "(\<forall>kvs. body_json resp = Inr (JObj kvs) \<longrightarrow>
            LoginWorker_do_login render cfg post =
              (if truthy (dict_get kvs (ascii ''success'') JNull)
               then Inr [(msg_login_ok_colon
                          @ py_str render (dict_get kvs (ascii ''msg'') (JStr [])), True)]
               else Inr [(msg_login_failed_colon
                          @ py_str render (dict_get kvs (ascii ''msg'') (JStr msg_unknown_error)),
                          False)]))
       \<and> (\<forall>e. body_json resp = Inl e \<and> is_ValueError (exn_class e) \<longrightarrow>
            LoginWorker_do_login render cfg post =
              (if py_in (ascii ''success'') (py_lower (body_text resp))
                  \<or> py_in (ascii ''logon success'') (py_lower (body_text resp))
               then Inr [(msg_login_ok, True)]
               else Inr [(msg_login_response_colon @ take 100 (body_text resp), False)]))"
proof (intro conjI allI impI)
  fix kvs assume "body_json resp = Inr (JObj kvs)"
  then show "LoginWorker_do_login render cfg post =
              (if truthy (dict_get kvs (ascii ''success'') JNull)
               then Inr [(msg_login_ok_colon
                          @ py_str render (dict_get kvs (ascii ''msg'') (JStr [])), True)]
               else Inr [(msg_login_failed_colon
                          @ py_str render (dict_get kvs (ascii ''msg'') (JStr msg_unknown_error)),
                          False)])"
    using assms
    by (simp add: LoginWorker_do_login_def login_attempt_reaches_post classify_response_dict)
next
  fix e assume "body_json resp = Inl e \<and> is_ValueError (exn_class e)"
  then have "classify_response render resp =
              (if py_in (ascii ''success'') (py_lower (body_text resp))
                  \<or> py_in (ascii ''logon success'') (py_lower (body_text resp))
               then Inr [(msg_login_ok, True)]
               else Inr [(msg_login_response_colon @ take 100 (body_text resp), False)])"
    by (simp add: classify_response_not_json)
  then show "LoginWorker_do_login render cfg post =
              (if py_in (ascii ''success'') (py_lower (body_text resp))
                  \<or> py_in (ascii ''logon success'') (py_lower (body_text resp))
               then Inr [(msg_login_ok, True)]
               else Inr [(msg_login_response_colon @ take 100 (body_text resp), False)])"
    using assms by (simp add: LoginWorker_do_login_def login_attempt_reaches_post)
qed

text \<open>
  The four responses of the specification's examples, on \<open>example_config\<close>:
  \<open>{"success": true, "msg": "ok"}\<close>, \<open>{"success": false, "msg": "bad password"}\<close>,
  the text \<open>Logon Success\<close> and the text \<open><html>error</html>\<close>.
\<close>

theorem LoginWorker_do_login_classifies_witness:
  "LoginWorker_do_login (\<lambda>v. []) example_config
     (\<lambda>request. Inr (json_response []
        (JObj [(ascii ''success'', JBool True), (ascii ''msg'', JStr (ascii ''ok''))])))
     = Inr [(msg_login_ok_colon @ ascii ''ok'', True)]
   \<and> LoginWorker_do_login (\<lambda>v. []) example_config
     (\<lambda>request. Inr (json_response []
        (JObj [(ascii ''success'', JBool False), (ascii ''msg'', JStr (ascii ''bad password''))])))
     = Inr [(msg_login_failed_colon @ ascii ''bad password'', False)]
   \<and> LoginWorker_do_login (\<lambda>v. []) example_config
     (\<lambda>request. Inr (text_response (ascii ''Logon Success'')))
     = Inr [(msg_login_ok, True)]
   \<and> LoginWorker_do_login (\<lambda>v. []) example_config
     (\<lambda>request. Inr (text_response (ascii ''<html>error</html>'')))
     = Inr [(msg_login_response_colon @ ascii ''<html>error</html>'', False)]"
proof (intro conjI)
  let ?ok = "json_response []
        (JObj [(ascii ''success'', JBool True), (ascii ''msg'', JStr (ascii ''ok''))])"
  show "LoginWorker_do_login (\<lambda>v. []) example_config (\<lambda>request. Inr ?ok)
        = Inr [(msg_login_ok_colon @ ascii ''ok'', True)]"
    using LoginWorker_do_login_classifies
            [OF example_url example_data example_headers, of "\<lambda>request. Inr ?ok" ?ok "\<lambda>v. []"]
    by (simp add: json_response_def dict_get_def ascii_def)
next
  let ?bad = "json_response []
        (JObj [(ascii ''success'', JBool False), (ascii ''msg'', JStr (ascii ''bad password''))])"
  show "LoginWorker_do_login (\<lambda>v. []) example_config (\<lambda>request. Inr ?bad)
        = Inr [(msg_login_failed_colon @ ascii ''bad password'', False)]"
    using LoginWorker_do_login_classifies
            [OF example_url example_data example_headers, of "\<lambda>request. Inr ?bad" ?bad "\<lambda>v. []"]
    by (simp add: json_response_def dict_get_def ascii_def)
next
  let ?r = "text_response (ascii ''Logon Success'')"
  have "py_in (ascii ''success'') (py_lower (ascii ''Logon Success''))"
    by (simp add: ascii_def py_lower_def lower_cp_def)
  then show "LoginWorker_do_login (\<lambda>v. []) example_config (\<lambda>request. Inr ?r)
        = Inr [(msg_login_ok, True)]"
    using LoginWorker_do_login_classifies
            [OF example_url example_data example_headers, of "\<lambda>request. Inr ?r" ?r "\<lambda>v. []"]
    by (simp add: text_response_def)
next
  let ?r = "text_response (ascii ''<html>error</html>'')"
  have "\<not> py_in (ascii ''success'') (py_lower (ascii ''<html>error</html>''))"
       "\<not> py_in (ascii ''logon success'') (py_lower (ascii ''<html>error</html>''))"
    by (simp_all add: ascii_def py_lower_def lower_cp_def)
  then show "LoginWorker_do_login (\<lambda>v. []) example_config (\<lambda>request. Inr ?r)
        = Inr [(msg_login_response_colon @ ascii ''<html>error</html>'', False)]"
    using LoginWorker_do_login_classifies
            [OF example_url example_data example_headers, of "\<lambda>request. Inr ?r" ?r "\<lambda>v. []"]
    by (simp add: text_response_def ascii_def)
qed

text \<open>
  C3 as stated fails on a body that is JSON but has no \<open>success\<close> entry. The body
  \<open>{"msg": "success"}\<close> has no such entry and its text contains \<open>success\<close>, so the
  stated policy sends it to the text rule and gives success; the program reports the
  failure "login failed: success".
\<close>

theorem LoginWorker_do_login_no_success_entry:
  "map_of [(ascii ''msg'', JStr (ascii ''success''))] (ascii ''success'') = None
   \<and> py_in (ascii ''success'')
        (py_lower (ascii ''{'' @ [34] @ ascii ''msg'' @ [34] @ ascii '': '' @ [34]
                   @ ascii ''success'' @ [34] @ ascii ''}''))
   \<and> LoginWorker_do_login (\<lambda>v. []) example_config
        (\<lambda>request. Inr (json_response
           (ascii ''{'' @ [34] @ ascii ''msg'' @ [34] @ ascii '': '' @ [34]
            @ ascii ''success'' @ [34] @ ascii ''}'')
           (JObj [(ascii ''msg'', JStr (ascii ''success''))])))
      = Inr [(msg_login_failed_colon @ ascii ''success'', False)]"
proof (intro conjI)
  show "map_of [(ascii ''msg'', JStr (ascii ''success''))] (ascii ''success'') = None"
    by (simp add: ascii_def)
  show "py_in (ascii ''success'')
        (py_lower (ascii ''{'' @ [34] @ ascii ''msg'' @ [34] @ ascii '': '' @ [34]
                   @ ascii ''success'' @ [34] @ ascii ''}''))"
    by (simp add: ascii_def py_lower_def lower_cp_def)
  show "LoginWorker_do_login (\<lambda>v. []) example_config
        (\<lambda>request. Inr (json_response
           (ascii ''{'' @ [34] @ ascii ''msg'' @ [34] @ ascii '': '' @ [34]
            @ ascii ''success'' @ [34] @ ascii ''}'')
           (JObj [(ascii ''msg'', JStr (ascii ''success''))])))
      = Inr [(msg_login_failed_colon @ ascii ''success'', False)]"
    by (simp add: LoginWorker_do_login_def
        login_attempt_reaches_post [OF example_url example_data example_headers]
        classify_response_dict [where kvs = "[(ascii ''msg'', JStr (ascii ''success''))]"]
        json_response_def dict_get_def ascii_def)
qed

text \<open>
  C4, as the program has it. When the request is sent and \<open>requests.post\<close> raises a
  \<open>RequestException\<close> (connection refused, name not resolved, timeout), the attempt
  emits one signal with \<open>success = False\<close> and the message "connection failed: "
  followed by the exception's text. The signal has two tags only, the boolean: a
  transport failure is a failure, told apart from a rejection by its message.
\<close>

theorem LoginWorker_do_login_transport_error:
  assumes "login_item cfg ''url'' = Inr u"
    and "get_login_data cfg = Inr d"
    and "get_headers cfg = Inr h"
    and "post \<lparr>req_url = u, req_data = d, req_headers = h, req_timeout = 10\<rparr> = Inl e"
    and "is_RequestException (exn_class e)"
  shows "LoginWorker_do_login render cfg post
           = Inr [(msg_connect_failed_colon @ exn_str e, False)]"
  using assms by (simp add: LoginWorker_do_login_def login_attempt_reaches_post)

theorem LoginWorker_do_login_transport_error_witness:
  "LoginWorker_do_login (\<lambda>v. []) example_config
     (\<lambda>request. Inl (Exn RequestException (ascii ''Connection refused'')))
     = Inr [(msg_connect_failed_colon @ ascii ''Connection refused'', False)]"
  using LoginWorker_do_login_transport_error
          [OF example_url example_data example_headers,
           of "\<lambda>request. Inl (Exn RequestException (ascii ''Connection refused''))"
              "Exn RequestException (ascii ''Connection refused'')" "\<lambda>v. []"]
  by simp

text \<open>
  C4 as stated asks for a third tag. A timeout and a rejection by the portal
  (\<open>{"success": false, "msg": "bad password"}\<close>) both come out with the tag \<open>False\<close>,
  and \<open>on_login_result\<close> shows both under the same title with the same icon.
\<close>

theorem LoginWorker_do_login_two_tags:
  "map snd (projr (LoginWorker_do_login (\<lambda>v. []) example_config
       (\<lambda>request. Inl (Exn RequestException (ascii ''Read timed out.'')))))
   = map snd (projr (LoginWorker_do_login (\<lambda>v. []) example_config
       (\<lambda>request. Inr (json_response []
          (JObj [(ascii ''success'', JBool False),
                 (ascii ''msg'', JStr (ascii ''bad password''))])))))
   \<and> LoginWorker_do_login (\<lambda>v. []) example_config
       (\<lambda>request. Inl (Exn RequestException (ascii ''Read timed out.'')))
     = Inr [(msg_connect_failed_colon @ ascii ''Read timed out.'', False)]
   \<and> map fst (tray_messages (on_login_result
        (msg_connect_failed_colon @ ascii ''Read timed out.'') False
        (example_window\<lparr>tray_messages := []\<rparr>)))
     = map fst (tray_messages (on_login_result
        (msg_login_failed_colon @ ascii ''bad password'') False
        (example_window\<lparr>tray_messages := []\<rparr>)))"
  by (simp add: LoginWorker_do_login_def
      login_attempt_reaches_post [OF example_url example_data example_headers]
      classify_response_dict
        [where kvs = "[(ascii ''success'', JBool False),
                       (ascii ''msg'', JStr (ascii ''bad password''))]"]
      json_response_def dict_get_def ascii_def on_login_result_def showMessage_def log_msg_def
      example_window_def)

section \<open>The window: what the handlers change\<close>

lemma set_setting_Inr:
  assumes "set_setting upd s = Inr s'"
  shows "\<exists>c. s' = s\<lparr>config := c\<rparr>"
proof (cases "config s")
  case (NotSubscriptable msg)
  with assms show ?thesis
    by (simp add: set_setting_def config_getitem_def)
next
  case (Config c)
  with assms show ?thesis
    by (auto simp: set_setting_def and_then_eq_Inr)
qed


lemma save_config_Inr:
  "save_config disk s = Inr s' \<longleftrightarrow> disk = None \<and> s' = s\<lparr>saved := saved s @ [config s]\<rparr>"
  by (cases disk) (auto simp: save_config_def)

lemma update_periodic_timer_Inr:
  assumes "update_periodic_timer s = Inr s'"
  shows "\<exists>l. s' = s\<lparr>periodic_login_timer :=
                      (if 0 < periodic_login_interval s
                       then Some (periodic_login_interval s * 1000) else None),
                    log_text := l\<rparr>"
  using assms
  by (auto simp: update_periodic_timer_def and_then_eq_Inr qt_int_Inr log_msg_def
      split: if_splits)

lemma update_periodic_timer_ok:
  assumes "periodic_login_interval s \<le> 2147483"
  shows "\<exists>s'. update_periodic_timer s = Inr s'"
  using assms by (simp add: update_periodic_timer_def qt_int_def)

lemma toggle_locked_checked:
  assumes "forced_auto_reconnect s" and "auto_reconnect_cb_checked s"
  shows "toggle_auto_reconnect disk checked s = Inr (log_msg msg_locked s)"
  using assms by (simp add: toggle_auto_reconnect.simps)

lemma toggle_locked_unchecked:
  assumes "forced_auto_reconnect s" and "\<not> auto_reconnect_cb_checked s"
  shows "toggle_auto_reconnect disk checked s =
           Inr (log_msg msg_locked (log_msg msg_locked (s\<lparr>auto_reconnect_cb_checked := True\<rparr>)))"
proof -
  have "toggle_auto_reconnect disk None (s\<lparr>auto_reconnect_cb_checked := True\<rparr>)
          = Inr (log_msg msg_locked (s\<lparr>auto_reconnect_cb_checked := True\<rparr>))"
    using assms by (simp add: toggle_locked_checked)
  with assms show ?thesis
    by (subst toggle_auto_reconnect.simps) simp
qed

lemma toggle_free:
  assumes "\<not> forced_auto_reconnect s"
    and "toggle_auto_reconnect disk checked s = Inr s'"
  shows "\<exists>c. s' = s\<lparr>auto_reconnect := (case checked of Some b \<Rightarrow> b | None \<Rightarrow> auto_reconnect_cb_checked s),
                     config := c,
                     saved := saved s @ [c],
                     log_text := log_text s @
                       [msg_auto_reconnect_is @
                        (if (case checked of Some b \<Rightarrow> b | None \<Rightarrow> auto_reconnect_cb_checked s)
                         then msg_on else msg_off)]\<rparr>"
proof -
  from assms obtain s1 s2 where
    s1: "set_setting (\<lambda>st. st\<lparr>s_auto_reconnect :=
                Some (case checked of Some b \<Rightarrow> b | None \<Rightarrow> auto_reconnect_cb_checked s)\<rparr>)
             (s\<lparr>auto_reconnect :=
                (case checked of Some b \<Rightarrow> b | None \<Rightarrow> auto_reconnect_cb_checked s)\<rparr>) = Inr s1"
    and s2: "save_config disk s1 = Inr s2"
    and s': "s' = log_msg (msg_auto_reconnect_is @ (if auto_reconnect s2 then msg_on else msg_off)) s2"
    by (subst (asm) toggle_auto_reconnect.simps) (auto simp: and_then_eq_Inr)
  from set_setting_Inr[OF s1] obtain c where
    "s1 = s\<lparr>auto_reconnect := (case checked of Some b \<Rightarrow> b | None \<Rightarrow> auto_reconnect_cb_checked s),
            config := c\<rparr>"
    by auto
  with s2 s' show ?thesis
    by (auto simp: log_msg_def save_config_Inr)
qed

lemma update_check_interval_Inr:
  assumes "update_check_interval disk v s = Inr s'"
  shows "\<exists>c. s' = s\<lparr>check_interval := v, config := c, saved := saved s @ [c],
                     log_text := log_text s @
                       [msg_check_interval_pre @ str_int v @ msg_space_seconds]\<rparr>"
proof -
  from assms obtain s1 s2 where
    s1: "set_setting (\<lambda>st. st\<lparr>s_check_interval := Some v\<rparr>) (s\<lparr>check_interval := v\<rparr>) = Inr s1"
    and s2: "save_config disk s1 = Inr s2"
    and s': "s' = log_msg (msg_check_interval_pre @ str_int v @ msg_space_seconds) s2"
    by (auto simp: update_check_interval_def and_then_eq_Inr)
  from set_setting_Inr[OF s1] obtain c where "s1 = s\<lparr>check_interval := v, config := c\<rparr>"
    by auto
  with s2 s' show ?thesis
    by (auto simp: log_msg_def save_config_Inr)
qed

lemma update_periodic_login_interval_Inr:
  assumes "update_periodic_login_interval disk v s = Inr s'"
  shows "\<exists>c l. s' = s\<lparr>periodic_login_interval := v, config := c, saved := saved s @ [c],
                       periodic_login_timer := (if 0 < v then Some (v * 1000) else None),
                       log_text := l\<rparr>"
proof -
  from assms obtain s1 s2 where
    s1: "set_setting (\<lambda>st. st\<lparr>s_periodic_login_interval := Some v\<rparr>)
           (s\<lparr>periodic_login_interval := v\<rparr>) = Inr s1"
    and s2: "save_config disk s1 = Inr s2"
    and s': "update_periodic_timer
             (log_msg (if v > 0
                       then msg_periodic_interval_pre @ str_int v @ msg_space_seconds
                       else msg_periodic_disabled) s2) = Inr s'"
    by (auto simp: update_periodic_login_interval_def and_then_eq_Inr)
  from set_setting_Inr[OF s1] obtain c where "s1 = s\<lparr>periodic_login_interval := v, config := c\<rparr>"
    by auto
  with s2 have s2eq: "s2 = s\<lparr>periodic_login_interval := v, config := c, saved := saved s @ [c]\<rparr>"
    by (simp add: save_config_Inr)
  define t where "t = log_msg (if v > 0
                       then msg_periodic_interval_pre @ str_int v @ msg_space_seconds
                       else msg_periodic_disabled) s2"
  from update_periodic_timer_Inr[OF s'[folded t_def]] obtain l where
    l: "s' = t\<lparr>periodic_login_timer :=
                 (if 0 < periodic_login_interval t
                  then Some (periodic_login_interval t * 1000) else None),
               log_text := l\<rparr>"
    by blast
  have "s' = s\<lparr>periodic_login_interval := v, config := c, saved := saved s @ [c],
                periodic_login_timer := (if 0 < v then Some (v * 1000) else None),
                log_text := l\<rparr>"
    unfolding l t_def s2eq by (simp add: log_msg_def)
  then show ?thesis by blast
qed


lemma do_login_Inr:
  assumes "do_login s = Inr s'"
  shows "s' = showMessage title_config_error msg_please_edit Warning (log_msg msg_not_configured s)
         \<or> s' = s\<lparr>login_threads := login_threads s @ [config s]\<rparr>"
  using assms by (auto simp: do_login_def and_then_eq_Inr split: if_splits)

section \<open>The window: logging in\<close>

lemma not_configured_eval:
  assumes "login_item cfg ''userName'' = Inr userName"
    and "login_item cfg ''pwd'' = Inr pwd"
    and "login_item cfg ''url'' = Inr url"
  shows "not_configured cfg =
           Inr (userName = YOUR_USERNAME \<or> pwd = YOUR_PASSWORD \<or> py_in YOUR_LOGIN_SERVER url)"
  using assms by (simp add: not_configured_def)














section \<open>The invariant holds in every reachable state\<close>

lemma bound_in_range: "lo \<le> v \<Longrightarrow> v \<le> hi \<Longrightarrow> bound lo hi v = v"
  by (auto simp: bound_def)

lemma window_inv_output [simp]:
  "window_inv (s\<lparr>log_text := l\<rparr>) = window_inv s"
  "window_inv (s\<lparr>tray_messages := t\<rparr>) = window_inv s"
  "window_inv (s\<lparr>warnings := w\<rparr>) = window_inv s"
  "window_inv (s\<lparr>saved := sv\<rparr>) = window_inv s"
  "window_inv (s\<lparr>login_threads := ts\<rparr>) = window_inv s"
  "window_inv (s\<lparr>config := c\<rparr>) = window_inv s"
  "window_inv (s\<lparr>config_last_modified := m\<rparr>) = window_inv s"
  "window_inv (s\<lparr>username_label := u\<rparr>) = window_inv s"
  "window_inv (s\<lparr>check_interval := ci\<rparr>) = window_inv s"
  "window_inv (s\<lparr>interval_spin := sp\<rparr>) = window_inv s"
  "window_inv (s\<lparr>periodic_login_interval := p\<rparr>) = window_inv s"
  "window_inv (s\<lparr>periodic_interval_spin := ps\<rparr>) = window_inv s"
  "window_inv (s\<lparr>periodic_login_timer := tm\<rparr>) = window_inv s"
  "window_inv (s\<lparr>auto_reconnect_action_checked := ac\<rparr>) = window_inv s"
  by (simp_all add: window_inv_def)

lemma auto_reconnect_cb_setChecked_inv:
  assumes "auto_reconnect_cb_setChecked disk b s = Inr s'"
    and "b = auto_reconnect s"
    and "forced_auto_reconnect s \<longrightarrow> b \<and> \<not> auto_reconnect_cb_enabled s"
  shows "window_inv s'"
proof (cases "auto_reconnect_cb_checked s = b")
  case True
  with assms show ?thesis
    by (auto simp: auto_reconnect_cb_setChecked_def window_inv_def)
next
  case False
  with assms have t: "toggle_auto_reconnect disk None (s\<lparr>auto_reconnect_cb_checked := b\<rparr>) = Inr s'"
    by (simp add: auto_reconnect_cb_setChecked_def)
  show ?thesis
  proof (cases "forced_auto_reconnect s")
    case True
    with assms have b by simp
    with True t have "s' = log_msg msg_locked (s\<lparr>auto_reconnect_cb_checked := b\<rparr>)"
      by (simp add: toggle_locked_checked)
    with True assms show ?thesis
      by (simp add: log_msg_def window_inv_def)
  next
    case False
    then have "\<not> forced_auto_reconnect (s\<lparr>auto_reconnect_cb_checked := b\<rparr>)" by simp
    from toggle_free[OF this t] False show ?thesis
      by (auto simp: window_inv_def)
  qed
qed

lemma interval_spin_setValue_inv:
  assumes "window_inv s" and "interval_spin_setValue disk v s = Inr (s', r)"
  shows "window_inv s'"
proof (cases "qt_int v")
  case (Inl e)
  with assms show ?thesis by (simp add: interval_spin_setValue_def)
next
  case (Inr w)
  show ?thesis
  proof (cases "bound 10 3600 w = interval_spin s")
    case True
    with Inr assms show ?thesis by (simp add: interval_spin_setValue_def)
  next
    case False
    with Inr assms have
      "update_check_interval disk (bound 10 3600 w) (s\<lparr>interval_spin := bound 10 3600 w\<rparr>) = Inr s'"
      by (auto simp: interval_spin_setValue_def and_then_eq_Inr)
    from update_check_interval_Inr[OF this] assms(1) show ?thesis
      by auto
  qed
qed

lemma periodic_interval_spin_setValue_inv:
  assumes "window_inv s" and "periodic_interval_spin_setValue disk v s = Inr (s', r)"
  shows "window_inv s'"
proof (cases "qt_int v")
  case (Inl e)
  with assms show ?thesis by (simp add: periodic_interval_spin_setValue_def)
next
  case (Inr w)
  show ?thesis
  proof (cases "bound 0 86400 w = periodic_interval_spin s")
    case True
    with Inr assms show ?thesis by (simp add: periodic_interval_spin_setValue_def)
  next
    case False
    with Inr assms have
      "update_periodic_login_interval disk (bound 0 86400 w)
         (s\<lparr>periodic_interval_spin := bound 0 86400 w\<rparr>) = Inr s'"
      by (auto simp: periodic_interval_spin_setValue_def and_then_eq_Inr)
    from update_periodic_login_interval_Inr[OF this] assms(1) show ?thesis
      by auto
  qed
qed

lemma update_periodic_timer_inv:
  assumes "window_inv s" and "update_periodic_timer s = Inr s'"
  shows "window_inv s'"
  using update_periodic_timer_Inr[OF assms(2)] assms(1) by auto

text \<open>The \<open>try\<close> block of \<open>reload_config\<close> from the point where the settings are read.\<close>

lemma reload_try_settings:
  assumes "config_getitem new_config Settings ''Settings'' = Inr st"
  shows "reload_try disk (Inr new_config) mtime s =
     (let s1 = s\<lparr>config := new_config,
                 auto_reconnect := setting (s_auto_reconnect st) True,
                 check_interval := setting (s_check_interval st) 60,
                 periodic_login_interval := setting (s_periodic_login_interval st) 0,
                 forced_auto_reconnect := setting (s_forced_auto_reconnect st) False\<rparr>;
          s2 = (if forced_auto_reconnect s1
                then s1\<lparr>auto_reconnect := True, auto_reconnect_cb_enabled := False\<rparr>
                else s1\<lparr>auto_reconnect_cb_enabled := True\<rparr>)
      in
      and_then (auto_reconnect_cb_setChecked disk (auto_reconnect s2) s2) (\<lambda>s.
      try_then (interval_spin_setValue disk (check_interval s) s) (\<lambda>s.
      try_then (periodic_interval_spin_setValue disk (periodic_login_interval s) s) (\<lambda>s.
        case config_getitem (config s) Login ''Login'' of
          Inl e \<Rightarrow> Inr (s, Some e)
        | Inr login \<Rightarrow>
            (case update_periodic_timer
                    (s\<lparr>username_label :=
                         label_user_colon @ dict_get login (ascii ''userName'') msg_not_set\<rparr>) of
               Inl e \<Rightarrow>
                 Inr (s\<lparr>username_label :=
                          label_user_colon @ dict_get login (ascii ''userName'') msg_not_set\<rparr>,
                      Some e)
             | Inr s \<Rightarrow>
                 (case mtime of
                    Inl e \<Rightarrow> Inr (s, Some e)
                  | Inr t \<Rightarrow>
                      Inr (showMessage title_config_updated msg_config_reloaded Information
                             (log_msg msg_config_reloaded (s\<lparr>config_last_modified := t\<rparr>)),
                           None)))))))"
  unfolding reload_try_def Let_def by (simp add: assms)

lemma reload_try_inv:
  assumes "window_inv s" and "reload_try disk loaded mtime s = Inr (s', raised)"
  shows "window_inv s'"
proof (cases loaded)
  case (Inl e)
  with assms show ?thesis by (simp add: reload_try_def)
next
  case (Inr new_config)
  show ?thesis
  proof (cases "config_getitem new_config Settings ''Settings''")
    case (Inl e)
    with Inr assms show ?thesis by (auto simp: reload_try_def)
  next
    case st: (Inr st)
    define s1 where "s1 = s\<lparr>config := new_config,
                 auto_reconnect := setting (s_auto_reconnect st) True,
                 check_interval := setting (s_check_interval st) 60,
                 periodic_login_interval := setting (s_periodic_login_interval st) 0,
                 forced_auto_reconnect := setting (s_forced_auto_reconnect st) False\<rparr>"
    define s2 where "s2 = (if forced_auto_reconnect s1
                then s1\<lparr>auto_reconnect := True, auto_reconnect_cb_enabled := False\<rparr>
                else s1\<lparr>auto_reconnect_cb_enabled := True\<rparr>)"
    define finish :: "app \<Rightarrow> tried" where "finish = (\<lambda>s.
        case config_getitem (config s) Login ''Login'' of
          Inl e \<Rightarrow> Inr (s, Some e)
        | Inr login \<Rightarrow>
            (case update_periodic_timer
                    (s\<lparr>username_label :=
                         label_user_colon @ dict_get login (ascii ''userName'') msg_not_set\<rparr>) of
               Inl e \<Rightarrow>
                 Inr (s\<lparr>username_label :=
                          label_user_colon @ dict_get login (ascii ''userName'') msg_not_set\<rparr>,
                      Some e)
             | Inr s \<Rightarrow>
                 (case mtime of
                    Inl e \<Rightarrow> Inr (s, Some e)
                  | Inr t \<Rightarrow>
                      Inr (showMessage title_config_updated msg_config_reloaded Information
                             (log_msg msg_config_reloaded (s\<lparr>config_last_modified := t\<rparr>)),
                           None))))"
    have unfold: "reload_try disk loaded mtime s =
        and_then (auto_reconnect_cb_setChecked disk (auto_reconnect s2) s2) (\<lambda>s.
        try_then (interval_spin_setValue disk (check_interval s) s) (\<lambda>s.
        try_then (periodic_interval_spin_setValue disk (periodic_login_interval s) s) finish))"
      unfolding Inr reload_try_settings[OF st] Let_def s2_def s1_def finish_def ..
    from assms(2)[unfolded unfold and_then_eq_Inr] obtain s3 where
      s3: "auto_reconnect_cb_setChecked disk (auto_reconnect s2) s2 = Inr s3"
      and r3: "try_then (interval_spin_setValue disk (check_interval s3) s3) (\<lambda>s.
               try_then (periodic_interval_spin_setValue disk (periodic_login_interval s) s) finish)
               = Inr (s', raised)"
      by blast
    have "forced_auto_reconnect s2 \<longrightarrow> auto_reconnect s2 \<and> \<not> auto_reconnect_cb_enabled s2"
      by (simp add: s2_def)
    from auto_reconnect_cb_setChecked_inv[OF s3 refl this]
    have inv3: "window_inv s3" .
    from r3 consider
      (first_raised) e where
        "interval_spin_setValue disk (check_interval s3) s3 = Inr (s', Some e)"
      | (first_returned) s4 where
        "interval_spin_setValue disk (check_interval s3) s3 = Inr (s4, None)"
        "try_then (periodic_interval_spin_setValue disk (periodic_login_interval s4) s4)
           finish = Inr (s', raised)"
      by (subst (asm) try_then_eq_Inr) blast
    then show ?thesis
    proof cases
      case first_raised
      from interval_spin_setValue_inv[OF inv3 this] show ?thesis .
    next
      case first_returned
      note s4 = first_returned(1) and r4 = first_returned(2)
      from interval_spin_setValue_inv[OF inv3 s4] have inv4: "window_inv s4" .
      from r4 consider
        (second_raised) e where
          "periodic_interval_spin_setValue disk (periodic_login_interval s4) s4
             = Inr (s', Some e)"
        | (second_returned) s5 where
          "periodic_interval_spin_setValue disk (periodic_login_interval s4) s4
             = Inr (s5, None)"
          "finish s5 = Inr (s', raised)"
        by (subst (asm) try_then_eq_Inr) blast
      then show ?thesis
      proof cases
        case second_raised
        from periodic_interval_spin_setValue_inv[OF inv4 this] show ?thesis .
      next
        case second_returned
        note s5 = second_returned(1) and rest = second_returned(2)
        from periodic_interval_spin_setValue_inv[OF inv4 s5] have inv5: "window_inv s5" .
        show ?thesis
        proof (cases "config_getitem (config s5) Login ''Login''")
          case (Inl e)
          with rest inv5 show ?thesis by (auto simp: finish_def)
        next
          case login: (Inr login)
          define s6 where "s6 = s5\<lparr>username_label :=
                         label_user_colon @ dict_get login (ascii ''userName'') msg_not_set\<rparr>"
          from inv5 have inv6: "window_inv s6" by (simp add: s6_def)
          show ?thesis
          proof (cases "update_periodic_timer s6")
            case (Inl e)
            with rest login inv6 show ?thesis
              by (auto simp: finish_def s6_def)
          next
            case (Inr s7)
            from update_periodic_timer_inv[OF inv6 Inr] have "window_inv s7" .
            with rest login Inr show ?thesis
              by (cases mtime) (auto simp: finish_def s6_def showMessage_def log_msg_def)
          qed
        qed
      qed
    qed
  qed
qed

lemma reload_config_inv:
  assumes "window_inv s" and "reload_config disk loaded mtime s = Inr s'"
  shows "window_inv s'"
proof (cases "reload_try disk loaded mtime s")
  case (Inl e)
  with assms(2) show ?thesis by (simp add: reload_config_def)
next
  case (Inr p)
  obtain s1 raised where p: "p = (s1, raised)" by (cases p)
  from reload_try_inv[OF assms(1) Inr[unfolded p]] have "window_inv s1" .
  with assms(2) Inr p show ?thesis
    by (cases raised) (auto simp: reload_config_def log_msg_def)
qed

lemma do_login_inv:
  assumes "window_inv s" and "do_login s = Inr s'"
  shows "window_inv s'"
  using do_login_Inr[OF assms(2)] assms(1)
  by (auto simp: showMessage_def log_msg_def)

lemma toggle_auto_reconnect_inv:
  assumes "window_inv s" and "toggle_auto_reconnect disk checked s = Inr s'"
  shows "window_inv s'"
proof (cases "forced_auto_reconnect s")
  case True
  with assms(1) have "auto_reconnect_cb_checked s" by (simp add: window_inv_def)
  with True assms show ?thesis
    by (auto simp: toggle_locked_checked log_msg_def)
next
  case False
  from toggle_free[OF False assms(2)] assms(1) False show ?thesis
    by (auto simp: window_inv_def)
qed

lemma main_inv:
  assumes "main cfg mtime = Inr s"
  shows "window_inv s"
proof -
  from assms obtain w where w: "init cfg mtime = Inr w"
    and s: "s = log_msg msg_first_use (log_msg msg_started
               (showMessage title_app msg_started_in_tray Information w))"
    by (auto simp: main_def and_then_eq_Inr)
  from w obtain r w1 t where
    r: "forced_auto_reconnect r \<longrightarrow>
          auto_reconnect r \<and> auto_reconnect_cb_checked r \<and> \<not> auto_reconnect_cb_enabled r"
    and w1: "update_periodic_timer r = Inr w1"
    and wt: "w = w1\<lparr>config_last_modified := t\<rparr>"
    unfolding init_def and_then_eq_Inr sum.inject
    by (elim exE conjE) (erule that[rotated], erule sym, simp)
  from r have "window_inv r" by (simp add: window_inv_def)
  from update_periodic_timer_inv[OF this w1] wt have "window_inv w" by simp
  with s show ?thesis
    by (simp add: log_msg_def showMessage_def)
qed

lemma step_inv:
  assumes "window_inv s" and "enabled e s" and "step e s = Inr s'"
  shows "window_inv s'"
proof (cases e)
  case LoginClicked
  with assms show ?thesis
    by (auto simp: manual_login_def log_msg_def dest!: do_login_inv[rotated])
next
  case (NetworkStatus status)
  with assms show ?thesis
    by (auto simp: on_network_status_changed_def log_msg_def split: if_splits
        dest!: do_login_inv[rotated])
next
  case PeriodicTimeout
  with assms show ?thesis
    by (auto simp: periodic_login_def log_msg_def dest!: do_login_inv[rotated])
next
  case (LoginResult i message success)
  with assms show ?thesis
    by (auto simp: on_login_result_def showMessage_def log_msg_def)
next
  case (CheckboxClicked disk)
  with assms have en: "auto_reconnect_cb_enabled s"
    and t: "toggle_auto_reconnect disk None
              (s\<lparr>auto_reconnect_cb_checked := \<not> auto_reconnect_cb_checked s\<rparr>) = Inr s'"
    by simp_all
  from en assms(1) have "window_inv (s\<lparr>auto_reconnect_cb_checked := \<not> auto_reconnect_cb_checked s\<rparr>)"
    by (auto simp: window_inv_def)
  from toggle_auto_reconnect_inv[OF this t] show ?thesis .
next
  case (TrayToggled disk)
  with assms have
    t: "toggle_auto_reconnect disk (Some (\<not> auto_reconnect_action_checked s))
          (s\<lparr>auto_reconnect_action_checked := \<not> auto_reconnect_action_checked s\<rparr>) = Inr s'"
    by simp
  from assms(1) have
    "window_inv (s\<lparr>auto_reconnect_action_checked := \<not> auto_reconnect_action_checked s\<rparr>)"
    by simp
  from toggle_auto_reconnect_inv[OF this t] show ?thesis .
next
  case (IntervalSpinChanged v disk)
  with assms have "update_check_interval disk v (s\<lparr>interval_spin := v\<rparr>) = Inr s'" by simp
  from update_check_interval_Inr[OF this] assms(1) show ?thesis
    by auto
next
  case (PeriodicSpinChanged v disk)
  with assms have
    u: "update_periodic_login_interval disk v (s\<lparr>periodic_interval_spin := v\<rparr>) = Inr s'"
    by simp
  from update_periodic_login_interval_Inr[OF u] assms(1) show ?thesis
    by auto
next
  case (ReloadClicked disk loaded mtime)
  with assms show ?thesis
    by (auto dest: reload_config_inv)
next
  case (ConfigMonitorTimeout disk current loaded mtime)
  show ?thesis
  proof (cases current)
    case (Inl e)
    with ConfigMonitorTimeout assms show ?thesis
      by (simp add: check_config_update_def)
  next
    case (Inr current_modified)
    with ConfigMonitorTimeout assms show ?thesis
      by (auto simp: check_config_update_def log_msg_def split: if_splits
          dest!: reload_config_inv[rotated])
  qed
qed

lemma reachable_inv:
  assumes "reachable s"
  shows "window_inv s"
  using assms
proof (induction rule: reachable.induct)
  case (start cfg mtime s)
  then show ?case by (rule main_inv)
next
  case (event s e s')
  then show ?case by (blast intro: step_inv)
qed

section \<open>The window: the switch, the timer, the reload\<close>

text \<open>
  C2, as the program has it. In every state the window can reach in which the file
  locks auto-reconnect, auto-reconnect is on, and asking to switch it off changes
  neither it nor the configuration nor the check box, and saves nothing: whatever a
  write to the file would do, the handler returns, and the one change it makes is the
  log line saying that the configuration file locks auto-reconnect. That line is the
  whole report: the handler gives nothing back to its caller. When it is the tray
  entry that asks, the click has flipped the entry's check mark before the handler
  runs and the handler does not set it back.
\<close>

theorem toggle_auto_reconnect_locked:
  assumes "reachable s" and "forced_auto_reconnect s"
  shows "auto_reconnect s
       \<and> toggle_auto_reconnect disk (Some False) s
           = Inr (s\<lparr>log_text := log_text s @ [msg_locked]\<rparr>)
       \<and> step (TrayToggled disk) s
           = Inr (s\<lparr>auto_reconnect_action_checked := \<not> auto_reconnect_action_checked s,
                    log_text := log_text s @ [msg_locked]\<rparr>)"
proof -
  from reachable_inv[OF assms(1)] assms(2)
  have on: "auto_reconnect s" and checked: "auto_reconnect_cb_checked s"
    by (simp_all add: window_inv_def)
  from toggle_locked_checked[OF assms(2) checked]
  have "toggle_auto_reconnect disk (Some False) s
          = Inr (s\<lparr>log_text := log_text s @ [msg_locked]\<rparr>)"
    by (simp add: log_msg_def)
  moreover
  let ?s = "s\<lparr>auto_reconnect_action_checked := \<not> auto_reconnect_action_checked s\<rparr>"
  from assms(2) checked
  have "forced_auto_reconnect ?s" and "auto_reconnect_cb_checked ?s"
    by simp_all
  from toggle_locked_checked[OF this]
  have "step (TrayToggled disk) s
           = Inr (s\<lparr>auto_reconnect_action_checked := \<not> auto_reconnect_action_checked s,
                    log_text := log_text s @ [msg_locked]\<rparr>)"
    by (simp add: log_msg_def)
  ultimately show ?thesis
    using on by simp
qed

theorem toggle_auto_reconnect_locked_witness:
  "reachable relocked_window \<and> forced_auto_reconnect relocked_window
   \<and> auto_reconnect relocked_window
   \<and> toggle_auto_reconnect None (Some False) relocked_window
       = Inr (relocked_window\<lparr>log_text := log_text relocked_window @ [msg_locked]\<rparr>)
   \<and> reachable locked_window \<and> forced_auto_reconnect locked_window
   \<and> auto_reconnect locked_window
   \<and> toggle_auto_reconnect None (Some False) locked_window
       = Inr (locked_window\<lparr>log_text := log_text locked_window @ [msg_locked]\<rparr>)"
proof -
  have start: "reachable example_window"
    by (rule reachable.start[OF main_example])
  have reload: "step (ReloadClicked None (Inr locked_config) (Inr 1)) example_window
                  = Inr relocked_window"
    by (simp only: step.simps reload_locks)
  have r1: "reachable relocked_window"
    by (rule reachable.event[OF start _ reload]) simp
  have f1: "forced_auto_reconnect relocked_window"
    by (simp add: relocked_window_def)
  have r2: "reachable locked_window"
    by (rule reachable.start[OF main_locked])
  have f2: "forced_auto_reconnect locked_window"
    by (simp add: locked_window_def)
  from toggle_auto_reconnect_locked[OF r1 f1, of None]
       toggle_auto_reconnect_locked[OF r2 f2, of None] r1 f1 r2 f2
  show ?thesis by simp
qed

text \<open>
  C2 as stated fails in its second half. The program starts on a filled-in
  configuration, the file is changed to lock auto-reconnect and is reloaded, and the
  user clicks the tray entry, which only a start disables. The handler returns without
  an exception and keeps auto-reconnect on, but the tray entry, checked before the
  click, is left unchecked: what the window shows is that auto-reconnect was switched
  off.
\<close>

theorem tray_entry_left_unchecked:
  "main example_config (Inr 0) = Inr example_window
   \<and> run [ReloadClicked None (Inr locked_config) (Inr 1), TrayToggled None] example_window
       = Some (Inr (relocked_window\<lparr>auto_reconnect_action_checked := False,
                                    log_text := log_text relocked_window @ [msg_locked]\<rparr>))
   \<and> forced_auto_reconnect relocked_window
   \<and> auto_reconnect relocked_window
   \<and> auto_reconnect_action_checked relocked_window"
proof (intro conjI)
  show "main example_config (Inr 0) = Inr example_window"
    by (rule main_example)
  have reload: "step (ReloadClicked None (Inr locked_config) (Inr 1)) example_window
                  = Inr relocked_window"
    by (simp only: step.simps reload_locks)
  have checked: "auto_reconnect_action_checked relocked_window"
    and en: "enabled (TrayToggled None) relocked_window"
    by (simp_all add: relocked_window_def example_window_def)
  have click: "step (TrayToggled None) relocked_window
               = Inr (relocked_window\<lparr>auto_reconnect_action_checked := False,
                                      log_text := log_text relocked_window @ [msg_locked]\<rparr>)"
    by (simp add: toggle_locked_checked log_msg_def relocked_window_def example_window_def)
  have "run [TrayToggled None] relocked_window
       = Some (Inr (relocked_window\<lparr>auto_reconnect_action_checked := False,
                                    log_text := log_text relocked_window @ [msg_locked]\<rparr>))"
    by (simp only: run.simps en click if_True sum.case)
  then show
    "run [ReloadClicked None (Inr locked_config) (Inr 1), TrayToggled None] example_window
       = Some (Inr (relocked_window\<lparr>auto_reconnect_action_checked := False,
                                    log_text := log_text relocked_window @ [msg_locked]\<rparr>))"
    by (simp only: run.simps enabled.simps reload if_True sum.case)
  show "forced_auto_reconnect relocked_window"
    by (simp add: relocked_window_def)
  show "auto_reconnect relocked_window"
    by (simp add: relocked_window_def example_window_def)
  show "auto_reconnect_action_checked relocked_window"
    by (rule checked)
qed










text \<open>
  C8, where the program departs from it. A configuration file that parses but is not a
  mapping (an emptied file gives \<open>None\<close>), or that lacks the \<open>Settings\<close> section, makes
  \<open>reload_config\<close> fail and warn, but only after \<open>self.config\<close> has been assigned: the
  configuration in memory is the malformed one, not the one held before. The next
  login then raises outside any handler.
\<close>

theorem reload_config_keeps_malformed:
  "reload_config disk (Inr (NotSubscriptable msg)) mtime s =
     Inr (s\<lparr>config := NotSubscriptable msg,
            log_text := log_text s @ [msg_reload_failed_colon @ msg],
            warnings := warnings s @
              [(title_config_load_error, msg_reload_failed_colon @ msg)]\<rparr>)
   \<and> and_then (reload_config disk (Inr (NotSubscriptable msg)) mtime s) manual_login
       = Inl (Exn TypeError msg)
   \<and> reload_config disk (Inr (Config \<lparr>Login = login, Headers = headers, Settings = None\<rparr>))
       mtime s =
     Inr (s\<lparr>config := Config \<lparr>Login = login, Headers = headers, Settings = None\<rparr>,
            log_text := log_text s @
              [msg_reload_failed_colon @ [39] @ ascii ''Settings'' @ [39]],
            warnings := warnings s @
              [(title_config_load_error,
                msg_reload_failed_colon @ [39] @ ascii ''Settings'' @ [39])]\<rparr>)"
  by (simp add: reload_config_def reload_try_def config_getitem_def key_error_def log_msg_def
      manual_login_def do_login_def not_configured_def login_item_def)

text \<open>
  Where C8 holds: a file that cannot be opened or parsed leaves the configuration, the
  settings and the timer as they were; the failure is logged and shown as a warning.
\<close>

lemma reload_config_unreadable:
  "reload_config disk (Inl e) mtime s =
     Inr (s\<lparr>log_text := log_text s @ [msg_reload_failed_colon @ exn_str e],
            warnings := warnings s @
              [(title_config_load_error, msg_reload_failed_colon @ exn_str e)]\<rparr>)"
  by (simp add: reload_config_def reload_try_def log_msg_def)

text \<open>Running events from a reachable state leads to reachable states.\<close>

lemma run_reachable:
  assumes "reachable s" and "run es s = Some (Inr s')"
  shows "reachable s'"
  using assms
proof (induction es arbitrary: s)
  case Nil
  then show ?case by simp
next
  case (Cons e es)
  then show ?case
    by (cases "step e s") (auto split: if_splits intro: reachable.event)
qed


end
